theory Spec2Isabelle
  imports Complex_Main "HOL-Library.AList" "HOL-Library.Word"
begin

section \<open>JavaScript values, strings and errors\<close>

text \<open>
  The client of \<^verbatim>\<open>src/unnamed/part_003\<close> is dynamically typed, and several of its
  checks are type tests (\<^verbatim>\<open>typeof barcode !== 'string'\<close>), so the arguments of the
  operations are values of a datatype of JavaScript values: the values of JSON and
  \<^verbatim>\<open>undefined\<close>. A string is the list of its UTF-16 code units, which is what
  \<^verbatim>\<open>length\<close>, \<^verbatim>\<open>substring\<close> and the regular expressions of the source count;
  \<open>str\<close> gives the code units of an ASCII literal. An object is the association list
  of its own properties. The members that an object inherits are functions and
  prototype objects of the environment; such a value is not data and is known by its
  name only (\<open>JFunction\<close>, with \<^verbatim>\<open>typeof\<close> function, and \<open>JPrototype\<close>, with
  \<^verbatim>\<open>typeof\<close> object).
\<close>

type_synonym jsstring = "nat list"

abbreviation str :: "string \<Rightarrow> jsstring" where
  "str s \<equiv> map of_char s"

datatype jsnum = Finite real | NaN | PosInfinity | NegInfinity

datatype jsval =
    JUndefined
  | JNull
  | JBool bool
  | JNum jsnum
  | JStr jsstring
  | JArr "jsval list"
  | JObj "(jsstring \<times> jsval) list"
  | JFunction jsstring
  | JPrototype jsstring

text \<open>ToBoolean: what \<^verbatim>\<open>if (v)\<close>, \<^verbatim>\<open>!v\<close> and \<^verbatim>\<open>v || w\<close> test.\<close>

fun truthy :: "jsval \<Rightarrow> bool" where
  "truthy JUndefined = False"
| "truthy JNull = False"
| "truthy (JBool b) = b"
| "truthy (JNum (Finite r)) = (r \<noteq> 0)"
| "truthy (JNum NaN) = False"
| "truthy (JNum PosInfinity) = True"
| "truthy (JNum NegInfinity) = True"
| "truthy (JStr s) = (s \<noteq> [])"
| "truthy (JArr xs) = True"
| "truthy (JObj kvs) = True"
| "truthy (JFunction n) = True"
| "truthy (JPrototype n) = True"

fun typeof :: "jsval \<Rightarrow> string" where
  "typeof JUndefined = ''undefined''"
| "typeof JNull = ''object''"
| "typeof (JBool b) = ''boolean''"
| "typeof (JNum n) = ''number''"
| "typeof (JStr s) = ''string''"
| "typeof (JArr xs) = ''object''"
| "typeof (JObj kvs) = ''object''"
| "typeof (JFunction n) = ''function''"
| "typeof (JPrototype n) = ''object''"

text \<open>
  Thrown values. \<^verbatim>\<open>OpenFoodFactsError\<close> (lines 13-26) extends \<^verbatim>\<open>Error\<close> with
  \<^verbatim>\<open>details\<close> and \<^verbatim>\<open>status\<close>; a \<^verbatim>\<open>TypeError\<close> is what the engine throws
  on a property read of \<^verbatim>\<open>undefined\<close> or a call of a non-function (its message is
  the engine's wording and no statement below depends on it). What \<^verbatim>\<open>fetch\<close>, a read
  of an asset or \<^verbatim>\<open>json()\<close> throws is taken to be an error object of one of these
  three kinds, so that the \<^verbatim>\<open>error.message\<close> of a \<^verbatim>\<open>catch\<close> is a string.
\<close>

datatype js_error =
    Error jsstring
  | TypeError jsstring
  | OpenFoodFactsError jsstring jsstring jsval

fun message :: "js_error \<Rightarrow> jsstring" where
  "message (Error m) = m"
| "message (TypeError m) = m"
| "message (OpenFoodFactsError m d s) = m"

fun instanceof_OpenFoodFactsError :: "js_error \<Rightarrow> bool" where
  "instanceof_OpenFoodFactsError (OpenFoodFactsError m d s) = True"
| "instanceof_OpenFoodFactsError e = False"

section \<open>Barcode validation (lines 68-81)\<close>

definition is_digit :: "nat \<Rightarrow> bool" where
  "is_digit c \<longleftrightarrow> 48 \<le> c \<and> c \<le> 57"

text \<open>
  \<^verbatim>\<open>/^\d+$/\<close> and \<^verbatim>\<open>/^\d{8,13}$/\<close>: the leading run of digits is the whole string
  (a JavaScript \<^verbatim>\<open>$\<close> without the m flag matches at the end of the input only) and
  its length is within the repetition bounds.
\<close>

definition test_digits :: "nat \<Rightarrow> nat option \<Rightarrow> jsstring \<Rightarrow> bool" where
  "test_digits lo hi s =
     (let n = length (takeWhile is_digit s)
      in n = length s \<and> lo \<le> n \<and> (case hi of None \<Rightarrow> True | Some h \<Rightarrow> n \<le> h))"

definition validateBarcode :: "jsval \<Rightarrow> bool \<Rightarrow> js_error + unit" where
  "validateBarcode barcode allowPartial =
     (case barcode of
        JStr s \<Rightarrow>
          if allowPartial then
            (if \<not> test_digits 1 None s \<or> length s = 0
             then Inl (Error (str ''Invalid barcode format. Must contain only digits.''))
             else Inr ())
          else
            (if \<not> test_digits 8 (Some 13) s
             then Inl (Error (str ''Invalid barcode format. Must be 8-13 digits.''))
             else Inr ())
      | _ \<Rightarrow> Inl (Error (str ''Barcode must be a string'')))"

section \<open>Search input sanitisation (lines 172-178)\<close>

text \<open>
  Modelled from the spec: the encoder \<^verbatim>\<open>he.encode\<close> belongs to the package
  \<^verbatim>\<open>he\<close>, which the client imports (line 6) and whose source is not among the
  repository's files. The spec asks for HTML-entity encoding of at least
  \<^verbatim>\<open>< > & " '\<close> and shows the hexadecimal form \<^verbatim>\<open>&#x3C;\<close>. The model follows
  the package's default options: the characters \<^verbatim>\<open>" & ' < > `\<close> become
  hexadecimal escapes (\<open>regexEscape\<close>), then each surrogate pair becomes the escape of
  its code point, then the code units of the package's class \<open>regexBmpWhitelist\<close>
  become escapes: the control characters but NUL, line feed and carriage return, DEL,
  five code units of U+0080 to U+009F, and every code unit from U+00A0 on.
\<close>

definition hex_digit :: "nat \<Rightarrow> nat" where
  "hex_digit d = (if d < 10 then 48 + d else 55 + d)"

fun to_hex :: "nat \<Rightarrow> jsstring" where
  "to_hex n = (if n < 16 then [hex_digit n] else to_hex (n div 16) @ [hex_digit (n mod 16)])"

definition hexEscape :: "nat \<Rightarrow> jsstring" where
  "hexEscape codePoint = str ''&#x'' @ to_hex codePoint @ str '';''"

definition regexEscape :: "nat \<Rightarrow> bool" where
  "regexEscape c \<longleftrightarrow> c \<in> {34, 38, 39, 60, 62, 96}"

definition regexBmpWhitelist :: "nat \<Rightarrow> bool" where
  "regexBmpWhitelist c \<longleftrightarrow>
     (1 \<le> c \<and> c \<le> 9) \<or> c = 11 \<or> c = 12 \<or> (14 \<le> c \<and> c \<le> 31) \<or> c = 127 \<or> c = 129 \<or>
     c = 141 \<or> c = 143 \<or> c = 144 \<or> c = 157 \<or> (160 \<le> c \<and> c \<le> 65535)"

definition replace_units :: "(nat \<Rightarrow> bool) \<Rightarrow> jsstring \<Rightarrow> jsstring" where
  "replace_units p s = concat (map (\<lambda>c. if p c then hexEscape c else [c]) s)"

fun replace_astral :: "jsstring \<Rightarrow> jsstring" where
  "replace_astral (high # low # rest) =
     (if 55296 \<le> high \<and> high \<le> 56319 \<and> 56320 \<le> low \<and> low \<le> 57343
      then hexEscape ((high - 55296) * 1024 + low - 56320 + 65536) @ replace_astral rest
      else high # replace_astral (low # rest))"
| "replace_astral s = s"

text \<open>
  Modelled from the spec: \<^verbatim>\<open>he.encode\<close> with the default options of the package,
  its three replacements in their order.
\<close>

definition he_encode :: "jsstring \<Rightarrow> jsstring" where
  "he_encode s = replace_units regexBmpWhitelist (replace_astral (replace_units regexEscape s))"

text \<open>
  \<^verbatim>\<open>String.prototype.trim\<close> removes the white space and line terminators of the
  language from both ends.
\<close>

definition is_whitespace :: "nat \<Rightarrow> bool" where
  "is_whitespace c \<longleftrightarrow>
     (9 \<le> c \<and> c \<le> 13) \<or> c = 32 \<or> c = 160 \<or> c = 5760 \<or> (8192 \<le> c \<and> c \<le> 8202) \<or>
     c = 8232 \<or> c = 8233 \<or> c = 8239 \<or> c = 8287 \<or> c = 12288 \<or> c = 65279"

definition trim :: "jsstring \<Rightarrow> jsstring" where
  "trim s = rev (dropWhile is_whitespace (rev (dropWhile is_whitespace s)))"

definition substring :: "jsstring \<Rightarrow> nat \<Rightarrow> nat \<Rightarrow> jsstring" where
  "substring s start stop = take (max start stop - min start stop) (drop (min start stop) s)"

text \<open>
  The sanitiser with the encoder as a parameter, and the client's sanitiser, which
  passes \<^verbatim>\<open>he.encode\<close>.
\<close>

definition sanitize_with :: "(jsstring \<Rightarrow> jsstring) \<Rightarrow> jsval \<Rightarrow> js_error + jsstring" where
  "sanitize_with encode input =
     (case input of
        JStr s \<Rightarrow> Inr (substring (trim (encode s)) 0 100)
      | _ \<Rightarrow> Inl (Error (str ''Search input must be a string'')))"

definition sanitizeSearchInput :: "jsval \<Rightarrow> js_error + jsstring" where
  "sanitizeSearchInput input = sanitize_with he_encode input"

section \<open>Image validation (lines 88-165)\<close>

text \<open>
  An image asset is inspected through four members only: the declared \<^verbatim>\<open>type\<close>
  (\<open>JUndefined\<close> when the member is absent), the declared \<^verbatim>\<open>size\<close> (a number when
  present), the full read \<^verbatim>\<open>arrayBuffer()\<close> and the partial read
  \<^verbatim>\<open>slice(start, end)\<close>. A capability that is absent, or is not a function, is
  \<open>None\<close>. A read either rejects with an error or yields the bytes of a buffer; a
  call of \<^verbatim>\<open>slice\<close> either throws or returns an object whose own
  \<^verbatim>\<open>arrayBuffer()\<close> is again a capability that may be absent. Every read the
  validator performs is recorded in a trace. The argument of the validator is an asset,
  or \<open>None\<close> for a value that \<^verbatim>\<open>!file\<close> rejects.
\<close>

type_synonym read_result = "js_error + 8 word list"

record asset =
  file_type :: jsval
  file_size :: "jsnum option"
  file_arrayBuffer :: "read_result option"
  file_slice :: "(nat \<Rightarrow> nat \<Rightarrow> js_error + read_result option) option"

datatype read_event = SliceCall nat nat | SliceArrayBuffer | FileArrayBuffer

definition allowedTypes :: "jsval list" where
  "allowedTypes =
     [JStr (str ''image/jpeg''), JStr (str ''image/jpg''), JStr (str ''image/png''),
      JStr (str ''image/webp'')]"

definition maxSize :: real where
  "maxSize = 10 * 1024 * 1024"

fun num_gt :: "jsnum \<Rightarrow> real \<Rightarrow> bool" where
  "num_gt (Finite r) m = (m < r)"
| "num_gt NaN m = False"
| "num_gt PosInfinity m = True"
| "num_gt NegInfinity m = False"

definition BYTES_TO_READ :: nat where
  "BYTES_TO_READ = 16"

definition signatures :: "(string \<times> 8 word list) list" where
  "signatures =
     [(''jpeg'', [0xFF, 0xD8, 0xFF]),
      (''png'', [0x89, 0x50, 0x4E, 0x47]),
      (''webp'', [0x52, 0x49, 0x46, 0x46])]"

definition webpIdentifier :: "8 word list" where
  "webpIdentifier = [0x57, 0x45, 0x42, 0x50]"

text \<open>
  \<^verbatim>\<open>bytes[i]\<close> is \<^verbatim>\<open>undefined\<close> beyond the end of the array, so it equals no
  byte there.
\<close>

definition byte_at :: "8 word list \<Rightarrow> nat \<Rightarrow> 8 word option" where
  "byte_at bytes i = (if i < length bytes then Some (bytes ! i) else None)"

text \<open>\<^verbatim>\<open>signature.every((byte, index) => bytes[offset + index] === byte)\<close>\<close>

fun every_at :: "8 word list \<Rightarrow> nat \<Rightarrow> 8 word list \<Rightarrow> bool" where
  "every_at [] offset bytes = True"
| "every_at (byte # signature) offset bytes =
     (byte_at bytes offset = Some byte \<and> every_at signature (Suc offset) bytes)"

text \<open>
  The loop of lines 138-151 over the entries of \<^verbatim>\<open>signatures\<close>, returning
  \<^verbatim>\<open>validSignature\<close>: \<^verbatim>\<open>continue\<close> goes on with the remaining entries,
  \<^verbatim>\<open>break\<close> leaves with \<open>True\<close>.
\<close>

fun check_signatures :: "(string \<times> 8 word list) list \<Rightarrow> 8 word list \<Rightarrow> bool" where
  "check_signatures [] bytes = False"
| "check_signatures ((format, signature) # rest) bytes =
     (if every_at signature 0 bytes then
        (if format = ''webp'' \<and> 12 \<le> length bytes \<and> \<not> every_at webpIdentifier 8 bytes
         then check_signatures rest bytes
         else True)
      else check_signatures rest bytes)"

definition content_mismatch :: jsstring where
  "content_mismatch = str ''File content does not match allowed image formats''"

text \<open>Lines 118-129: the bytes to inspect, with the reads made to get them.\<close>

definition read_bytes :: "asset \<Rightarrow> read_result \<Rightarrow> read_event list \<times> read_result" where
  "read_bytes file full =
     (case file_slice file of
        Some slice_fn \<Rightarrow>
          (case slice_fn 0 BYTES_TO_READ of
             Inl e \<Rightarrow> ([SliceCall 0 BYTES_TO_READ], Inl e)
           | Inr None \<Rightarrow>
               ([SliceCall 0 BYTES_TO_READ],
                Inl (TypeError (str ''slicedFile.arrayBuffer is not a function'')))
           | Inr (Some sliced) \<Rightarrow> ([SliceCall 0 BYTES_TO_READ, SliceArrayBuffer], sliced))
      | None \<Rightarrow>
          ([FileArrayBuffer],
           (case full of Inl e \<Rightarrow> Inl e | Inr buffer \<Rightarrow> Inr (take BYTES_TO_READ buffer))))"

text \<open>
  Lines 131-163: the body of the \<^verbatim>\<open>try\<close> after the read, and the \<^verbatim>\<open>catch\<close>,
  which rethrows an error whose message is the mismatch message and swallows any other.
\<close>

definition check_magic :: "read_result \<Rightarrow> js_error + unit" where
  "check_magic r =
     (case (case r of
              Inl e \<Rightarrow> Inl e
            | Inr bytes \<Rightarrow>
                if \<not> check_signatures signatures bytes then Inl (Error content_mismatch)
                else Inr ()) of
        Inl error \<Rightarrow> if message error = content_mismatch then Inl error else Inr ()
      | Inr u \<Rightarrow> Inr ())"

definition validateImageFile :: "asset option \<Rightarrow> read_event list \<times> (js_error + unit)" where
  "validateImageFile f =
     (case f of
        None \<Rightarrow> ([], Inl (Error (str ''Image file is required'')))
      | Some file \<Rightarrow>
          if file_type file \<noteq> JUndefined \<and> file_type file \<notin> set allowedTypes then
            ([], Inl (Error (str ''Invalid file type. Only JPEG, PNG, and WebP images are allowed.'')))
          else if (case file_size file of None \<Rightarrow> False | Some n \<Rightarrow> num_gt n maxSize) then
            ([], Inl (Error (str ''File size too large. Maximum size is 10MB.'')))
          else
            (case file_arrayBuffer file of
               None \<Rightarrow> ([], Inr ())
             | Some full \<Rightarrow>
                 (let (reads, r) = read_bytes file full in (reads, check_magic r))))"

section \<open>The client and its environment\<close>

text \<open>
  An instance has two fields, set by the constructor (lines 37-44): the base URL
  and the credentials, \<open>None\<close> for \<^verbatim>\<open>null\<close>.
\<close>

record client =
  baseUrl :: jsstring
  credentials :: "(jsstring \<times> jsstring) option"

definition startsWith :: "jsstring \<Rightarrow> jsstring \<Rightarrow> bool" where
  "startsWith s p \<longleftrightarrow> take (length p) s = p"

text \<open>The argument is \<open>None\<close> when the constructor is called without one.\<close>

definition new_client :: "jsstring option \<Rightarrow> js_error + client" where
  "new_client arg =
     (let url = (case arg of None \<Rightarrow> str ''https://world.openfoodfacts.org'' | Some u \<Rightarrow> u)
      in if \<not> startsWith url (str ''https://'') then
           Inl (Error (str ''HTTPS is required for secure API access. Use https:// URLs only.''))
         else Inr \<lparr>baseUrl = url, credentials = None\<rparr>)"

definition setCredentials :: "client \<Rightarrow> jsval \<Rightarrow> jsval \<Rightarrow> js_error + client" where
  "setCredentials this userId password =
     (case (userId, password) of
        (JStr u, JStr p) \<Rightarrow>
          if trim u = [] \<or> trim p = [] then
            Inl (Error (str ''User ID and password cannot be empty''))
          else Inr (this\<lparr>credentials := Some (u, p)\<rparr>)
      | _ \<Rightarrow> Inl (Error (str ''User ID and password must be strings'')))"

definition validateSecureConnection :: "client \<Rightarrow> js_error + unit" where
  "validateSecureConnection this =
     (if \<not> startsWith (baseUrl this) (str ''https://'') then
        Inl (Error (str ''Cannot send credentials over non-HTTPS connection. HTTPS is required for authenticated requests.''))
      else Inr ())"

definition createRequestHeaders :: "(jsstring \<times> jsstring) list" where
  "createRequestHeaders = [(str ''User-Agent'', str ''node-red-contrib-open-food-facts/0.2.2'')]"

text \<open>
  The transport. A request is what the client hands to \<^verbatim>\<open>fetch\<close>: the URL up to the
  query, the entries of the \<^verbatim>\<open>URLSearchParams\<close> (whose serialisation into the URL is
  the platform's), the method, the headers and the entries of the \<^verbatim>\<open>FormData\<close>
  (a text, or the image argument as it was passed).
  \<^verbatim>\<open>fetch\<close> either throws or returns a response, of which the client reads
  \<^verbatim>\<open>ok\<close>, \<^verbatim>\<open>status\<close> and \<^verbatim>\<open>json()\<close>. Every operation calls \<^verbatim>\<open>fetch\<close> at most
  once, so the transport is a function of the request, and each operation returns the
  list of the requests it made beside its outcome.

  \<open>to_string\<close> is the conversion of a value that is not a string into one (template
  literals, \<^verbatim>\<open>toString()\<close>, the arguments of \<^verbatim>\<open>append\<close>, property keys); the
  formatting of numbers is the engine's.

  \<open>inherited\<close> gives the member that an object inherits under a key through its
  prototype chain, \<open>None\<close> when the chain has no such member: for a decoded JSON
  object the members of \<^verbatim>\<open>Object.prototype\<close> (\<^verbatim>\<open>constructor\<close>, \<^verbatim>\<open>toString\<close>, ...),
  for an array those of \<^verbatim>\<open>Array.prototype\<close> as well. For the accessor
  \<^verbatim>\<open>__proto__\<close> of \<^verbatim>\<open>Object.prototype\<close> the member is what its getter returns, the
  prototype of the object. For a function or a prototype object of the environment,
  whose properties the model does not list, it gives every member.
\<close>

datatype form_value = FormText jsstring | FormFile "asset option"

record request =
  url :: jsstring
  query :: "(jsstring \<times> jsstring) list"
  http_method :: string
  headers :: "(jsstring \<times> jsstring) list"
  body :: "(jsstring \<times> form_value) list"

record response =
  ok :: bool
  status :: jsval
  json :: "js_error + jsval"

record runtime =
  fetch :: "request \<Rightarrow> js_error + response"
  to_string :: "jsval \<Rightarrow> jsstring"
  inherited :: "jsval \<Rightarrow> jsstring \<Rightarrow> jsval option"

definition ToString :: "runtime \<Rightarrow> jsval \<Rightarrow> jsstring" where
  "ToString rt v = (case v of JStr s \<Rightarrow> s | _ \<Rightarrow> to_string rt v)"

definition then_do :: "'e + 'a \<Rightarrow> ('a \<Rightarrow> 'e + 'b) \<Rightarrow> 'e + 'b" where
  "then_do m f = (case m of Inl e \<Rightarrow> Inl e | Inr x \<Rightarrow> f x)"

text \<open>Decimal numerals of array indices, and the array index a property key denotes.\<close>

fun to_dec :: "nat \<Rightarrow> jsstring" where
  "to_dec n = (if n < 10 then [48 + n] else to_dec (n div 10) @ [48 + n mod 10])"

definition canonical_index :: "jsstring \<Rightarrow> nat option" where
  "canonical_index k =
     (if k \<noteq> [] \<and> list_all is_digit k \<and> (length k = 1 \<or> hd k \<noteq> 48)
      then Some (foldl (\<lambda>a c. 10 * a + (c - 48)) 0 k)
      else None)"

text \<open>
  Reading a property under a name that the source fixes (\<^verbatim>\<open>params.action\<close>,
  \<^verbatim>\<open>data.products\<close>, \<^verbatim>\<open>type.field\<close>, an index): a \<^verbatim>\<open>TypeError\<close> on
  \<^verbatim>\<open>undefined\<close> and \<^verbatim>\<open>null\<close>, \<^verbatim>\<open>undefined\<close> for a property the value does not
  have. None of these names is a member of a standard prototype, so the own properties
  decide.
\<close>

definition get_prop :: "jsval \<Rightarrow> jsstring \<Rightarrow> js_error + jsval" where
  "get_prop v k =
     (case v of
        JUndefined \<Rightarrow> Inl (TypeError (str ''Cannot read properties of undefined''))
      | JNull \<Rightarrow> Inl (TypeError (str ''Cannot read properties of null''))
      | JObj kvs \<Rightarrow> Inr (case map_of kvs k of None \<Rightarrow> JUndefined | Some x \<Rightarrow> x)
      | JArr xs \<Rightarrow>
          Inr (if k = str ''length'' then JNum (Finite (real (length xs)))
               else (case canonical_index k of
                       Some i \<Rightarrow> if i < length xs then xs ! i else JUndefined
                     | None \<Rightarrow> JUndefined))
      | JStr s \<Rightarrow>
          Inr (if k = str ''length'' then JNum (Finite (real (length s)))
               else (case canonical_index k of
                       Some i \<Rightarrow> if i < length s then JStr [s ! i] else JUndefined
                     | None \<Rightarrow> JUndefined))
      | _ \<Rightarrow> Inr JUndefined)"

text \<open>
  The members of an object under a key supplied by the caller (lines 337 and 338): an
  own property, or else the member that the object inherits.
\<close>

definition own_member :: "jsval \<Rightarrow> jsstring \<Rightarrow> jsval option" where
  "own_member v k =
     (case v of
        JObj kvs \<Rightarrow> map_of kvs k
      | JArr xs \<Rightarrow>
          if k = str ''length'' then Some (JNum (Finite (real (length xs))))
          else (case canonical_index k of
                  Some i \<Rightarrow> if i < length xs then Some (xs ! i) else None
                | None \<Rightarrow> None)
      | _ \<Rightarrow> None)"

definition member :: "runtime \<Rightarrow> jsval \<Rightarrow> jsstring \<Rightarrow> jsval option" where
  "member rt v k = (case own_member v k of Some x \<Rightarrow> Some x | None \<Rightarrow> inherited rt v k)"

text \<open>
  The operator \<^verbatim>\<open>in\<close> (line 337): whether the object has the member, own or
  inherited; a \<^verbatim>\<open>TypeError\<close> when the right operand is not an object.
\<close>

definition has_property :: "runtime \<Rightarrow> jsval \<Rightarrow> jsstring \<Rightarrow> js_error + bool" where
  "has_property rt v k =
     (case v of
        JObj kvs \<Rightarrow> Inr (member rt v k \<noteq> None)
      | JArr xs \<Rightarrow> Inr (member rt v k \<noteq> None)
      | JFunction n \<Rightarrow> Inr (member rt v k \<noteq> None)
      | JPrototype n \<Rightarrow> Inr (member rt v k \<noteq> None)
      | _ \<Rightarrow> Inl (TypeError (str ''Cannot use the in operator on a value that is not an object'')))"

text \<open>The read \<^verbatim>\<open>product[field]\<close> of line 338, of an object.\<close>

definition get_member :: "runtime \<Rightarrow> jsval \<Rightarrow> jsstring \<Rightarrow> jsval" where
  "get_member rt v k = (case member rt v k of Some x \<Rightarrow> x | None \<Rightarrow> JUndefined)"

text \<open>
  The assignment \<^verbatim>\<open>filtered[field] = value\<close> of line 338. \<^verbatim>\<open>filtered\<close> starts as
  \<^verbatim>\<open>{}\<close>, whose prototype is \<^verbatim>\<open>Object.prototype\<close>. An assignment to an own
  property overwrites it in place, and an assignment to any other key creates an own
  property, except where the prototype chain of \<^verbatim>\<open>filtered\<close> answers the key with a
  setter: that is the accessor \<^verbatim>\<open>__proto__\<close> of \<^verbatim>\<open>Object.prototype\<close>, whose setter
  makes an object or \<^verbatim>\<open>null\<close> the prototype of \<^verbatim>\<open>filtered\<close>, does nothing for any
  other value, and creates no property. So the prototype of \<^verbatim>\<open>filtered\<close> is part of
  the state of the loop: the setter is reached unless the prototype is \<^verbatim>\<open>null\<close> or a
  decoded object that has an own property \<^verbatim>\<open>__proto__\<close> (a data property, found
  first).
\<close>

datatype proto_state = ObjectPrototype | NullPrototype | ValuePrototype jsval

definition reaches_proto_setter :: "proto_state \<Rightarrow> bool" where
  "reaches_proto_setter ps =
     (case ps of
        ObjectPrototype \<Rightarrow> True
      | NullPrototype \<Rightarrow> False
      | ValuePrototype w \<Rightarrow> own_member w (str ''__proto__'') = None)"

definition set_prototype :: "proto_state \<Rightarrow> jsval \<Rightarrow> proto_state" where
  "set_prototype ps v =
     (case v of
        JNull \<Rightarrow> NullPrototype
      | JObj kvs \<Rightarrow> ValuePrototype v
      | JArr xs \<Rightarrow> ValuePrototype v
      | JFunction n \<Rightarrow> ValuePrototype v
      | JPrototype n \<Rightarrow> ValuePrototype v
      | _ \<Rightarrow> ps)"

definition assign ::
  "proto_state \<times> (jsstring \<times> jsval) list \<Rightarrow> jsstring \<Rightarrow> jsval \<Rightarrow> proto_state \<times> (jsstring \<times> jsval) list" where
  "assign st k v =
     (case st of
        (ps, filtered) \<Rightarrow>
          if k \<in> set (map fst filtered) then (ps, AList.update k v filtered)
          else if k = str ''__proto__'' \<and> reaches_proto_setter ps then (set_prototype ps v, filtered)
          else (ps, AList.update k v filtered))"

text \<open>The own enumerable properties that a spread \<^verbatim>\<open>{...v}\<close> copies.\<close>

definition own_properties :: "jsval \<Rightarrow> (jsstring \<times> jsval) list" where
  "own_properties v =
     (case v of
        JObj kvs \<Rightarrow> kvs
      | JArr xs \<Rightarrow> zip (map to_dec [0..<length xs]) xs
      | JStr s \<Rightarrow> zip (map to_dec [0..<length s]) (map (\<lambda>c. JStr [c]) s)
      | _ \<Rightarrow> [])"

fun map_err :: "('a \<Rightarrow> 'e + 'b) \<Rightarrow> 'a list \<Rightarrow> 'e + 'b list" where
  "map_err f [] = Inr []"
| "map_err f (x # xs) =
     (case f x of
        Inl e \<Rightarrow> Inl e
      | Inr y \<Rightarrow> (case map_err f xs of Inl e \<Rightarrow> Inl e | Inr ys \<Rightarrow> Inr (y # ys)))"

definition http_error :: "runtime \<Rightarrow> response \<Rightarrow> jsstring" where
  "http_error rt resp = str ''HTTP error! status: '' @ ToString rt (status resp)"

section \<open>searchProducts (lines 267-356)\<close>

text \<open>
  The first statement of the body reads \<^verbatim>\<open>params.action\<close>, which throws when
  \<^verbatim>\<open>params\<close> is \<^verbatim>\<open>undefined\<close> or \<^verbatim>\<open>null\<close>; every later read of a property of
  \<^verbatim>\<open>params\<close> is then of a value that is neither, and yields a value.
\<close>

definition field :: "jsval \<Rightarrow> jsstring \<Rightarrow> jsval" where
  "field v k = (case get_prop v k of Inl e \<Rightarrow> JUndefined | Inr x \<Rightarrow> x)"

text \<open>The \<^verbatim>\<open>switch\<close> of lines 284-296.\<close>

definition code_type_param :: "jsval \<Rightarrow> jsstring" where
  "code_type_param v =
     (if v = JStr (str ''contains'') then str ''contains''
      else if v = JStr (str ''starts'') then str ''starts''
      else if v = JStr (str ''ends'') then str ''ends''
      else str ''exact'')"

text \<open>The body of the \<^verbatim>\<open>forEach\<close> of lines 302-306, for one index.\<close>

definition tag_entries :: "runtime \<Rightarrow> jsval \<Rightarrow> jsval \<Rightarrow> nat \<times> jsval \<Rightarrow> (jsstring \<times> jsstring) list" where
  "tag_entries rt tag tagContains it =
     (case it of
        (index, type) \<Rightarrow>
          [(str ''tagtype_'' @ to_dec index, ToString rt type),
           (str ''tag_contains_'' @ to_dec index, ToString rt (field tagContains (to_dec index))),
           (str ''tag_'' @ to_dec index, ToString rt (field tag (to_dec index)))])"

definition tag_params :: "runtime \<Rightarrow> jsval \<Rightarrow> (jsstring \<times> jsstring) list \<Rightarrow> js_error + (jsstring \<times> jsstring) list" where
  "tag_params rt params q =
     (let tagType = field params (str ''tagType''); tag = field params (str ''tag'');
          tagContains = field params (str ''tagContains'')
      in if truthy tagType \<and> truthy tag \<and> truthy tagContains then
           (case tagType of
              JArr types \<Rightarrow> Inr (q @ concat (map (tag_entries rt tag tagContains) (enumerate 0 types)))
            | _ \<Rightarrow> Inl (TypeError (str ''params.tagType.forEach is not a function'')))
         else Inr q)"

text \<open>Lines 269-315: the query parameters, or the error thrown while building them.\<close>

definition build_search_query :: "runtime \<Rightarrow> jsval \<Rightarrow> js_error + (jsstring \<times> jsstring) list" where
  "build_search_query rt params =
     then_do (get_prop params (str ''action'')) (\<lambda>action.
     then_do (Inr [(str ''json'', str ''true''),
                   (str ''action'', ToString rt (if truthy action then action else JStr (str ''process'')))]) (\<lambda>q0.
     then_do (let search_terms = field params (str ''search_terms'')
              in if truthy search_terms then
                   then_do (sanitizeSearchInput search_terms) (\<lambda>s. Inr (q0 @ [(str ''search_terms'', s)]))
                 else Inr q0) (\<lambda>q1.
     then_do (let code = field params (str ''code''); code_type = field params (str ''code_type'')
              in if truthy code then
                   then_do (validateBarcode code True) (\<lambda>u.
                     Inr (q1 @ [(str ''code'', ToString rt code)] @
                          (if truthy code_type then [(str ''code_type'', code_type_param code_type)] else [])))
                 else Inr q1) (\<lambda>q2.
     then_do (tag_params rt params q2) (\<lambda>q3.
     then_do (let additives = field params (str ''additives'')
              in Inr (if truthy additives then q3 @ [(str ''additives'', ToString rt additives)] else q3)) (\<lambda>q4.
     then_do (let palm = field params (str ''ingredientsFromPalmOil'')
              in Inr (if truthy palm then q4 @ [(str ''ingredients_from_palm_oil'', ToString rt palm)] else q4)) (\<lambda>q5.
     then_do (let page = field params (str ''page'')
              in Inr (if truthy page then q5 @ [(str ''page'', ToString rt page)] else q5)) (\<lambda>q6.
     (let pageSize = field params (str ''pageSize'')
      in Inr (if truthy pageSize then q6 @ [(str ''page_size'', ToString rt pageSize)] else q6))))))))))"

text \<open>
  Lines 335-341: the projection of one product on the requested fields, in the order of
  the fields, from the empty object; the result is the object of the own properties of
  \<^verbatim>\<open>filtered\<close>.
\<close>

fun project_fields ::
  "runtime \<Rightarrow> jsval \<Rightarrow> jsval list \<Rightarrow> proto_state \<times> (jsstring \<times> jsval) list \<Rightarrow>
   js_error + proto_state \<times> (jsstring \<times> jsval) list" where
  "project_fields rt product [] st = Inr st"
| "project_fields rt product (f # fs) st =
     (let k = ToString rt f
      in then_do (has_property rt product k) (\<lambda>present.
           if present then project_fields rt product fs (assign st k (get_member rt product k))
           else project_fields rt product fs st))"

definition project :: "runtime \<Rightarrow> jsval list \<Rightarrow> jsval \<Rightarrow> js_error + jsval" where
  "project rt fs product =
     then_do (project_fields rt product fs (ObjectPrototype, [])) (\<lambda>st. Inr (JObj (snd st)))"

text \<open>Lines 330-346.\<close>

definition filter_fields :: "runtime \<Rightarrow> jsval \<Rightarrow> jsval \<Rightarrow> js_error + jsval" where
  "filter_fields rt requested data =
     (case requested of
        JArr fs \<Rightarrow>
          if 0 < length fs then
            then_do (get_prop data (str ''products'')) (\<lambda>products.
              case products of
                JArr ps \<Rightarrow>
                  then_do (map_err (project rt fs) ps) (\<lambda>ps'.
                    Inr (JObj (AList.update (str ''products'') (JArr ps') (own_properties data))))
              | _ \<Rightarrow> Inl (TypeError (str ''data.products.map is not a function'')))
          else Inr data
      | _ \<Rightarrow> Inr data)"

text \<open>
  Line 320: the request of the search, \<^verbatim>\<open>fetch\<close> called with the URL alone.
\<close>

definition search_request :: "client \<Rightarrow> (jsstring \<times> jsstring) list \<Rightarrow> request" where
  "search_request this q =
     \<lparr>url = baseUrl this @ str ''/cgi/search.pl'', query = q,
      http_method = ''GET'', headers = [], body = []\<rparr>"

text \<open>The body of the \<^verbatim>\<open>try\<close> (lines 269-346).\<close>

definition search_try :: "runtime \<Rightarrow> client \<Rightarrow> jsval \<Rightarrow> request list \<times> (js_error + jsval)" where
  "search_try rt this params =
     (case build_search_query rt params of
        Inl e \<Rightarrow> ([], Inl e)
      | Inr q \<Rightarrow>
          (let req = search_request this q
           in ([req],
               then_do (fetch rt req) (\<lambda>resp.
                 if \<not> ok resp then
                   Inl (OpenFoodFactsError (http_error rt resp) (str ''API request failed'') (status resp))
                 else
                   then_do (json resp) (\<lambda>data.
                     if \<not> truthy data \<or> typeof data \<noteq> ''object'' then
                       Inl (Error (str ''Invalid response format''))
                     else filter_fields rt (field params (str ''fields'')) data)))))"

text \<open>The \<^verbatim>\<open>catch\<close> (lines 347-355).\<close>

definition search_catch :: "js_error \<Rightarrow> js_error" where
  "search_catch error =
     (if instanceof_OpenFoodFactsError error then error
      else if message error = str ''Invalid response format'' then error
      else Error (str ''Failed to search products: '' @ message error))"

definition searchProducts :: "runtime \<Rightarrow> client \<Rightarrow> jsval \<Rightarrow> request list \<times> (js_error + jsval)" where
  "searchProducts rt this params =
     (case search_try rt this params of
        (requests, Inl error) \<Rightarrow> (requests, Inl (search_catch error))
      | (requests, Inr data) \<Rightarrow> (requests, Inr data))"

section \<open>The other operations\<close>

text \<open>
  \<^verbatim>\<open>if (!response.ok) throw new Error(`HTTP error! status: ${response.status}`);\<close>
  followed by \<^verbatim>\<open>await response.json()\<close>, as getProduct, addProduct, uploadPhoto,
  getTaxonomy and getRandomInsight do after their call of \<^verbatim>\<open>fetch\<close>.
\<close>

definition fetch_json :: "runtime \<Rightarrow> request \<Rightarrow> js_error + jsval" where
  "fetch_json rt req =
     then_do (fetch rt req) (\<lambda>resp.
       if \<not> ok resp then Inl (Error (http_error rt resp)) else json resp)"

definition wrap_error :: "string \<Rightarrow> js_error + 'a \<Rightarrow> js_error + 'a" where
  "wrap_error prefix r =
     (case r of Inl error \<Rightarrow> Inl (Error (str prefix @ message error)) | Inr x \<Rightarrow> Inr x)"

text \<open>getProduct (lines 206-248).\<close>

definition product_fields :: "jsstring list" where
  "product_fields =
     [str ''code'', str ''product_name'', str ''brands'', str ''quantity'', str ''serving_size'',
      str ''packaging'', str ''storage_conditions'', str ''conservation_conditions'',
      str ''expiration_date_format'', str ''categories'', str ''labels'', str ''food_groups'']"

definition getProduct :: "runtime \<Rightarrow> client \<Rightarrow> jsval \<Rightarrow> request list \<times> (js_error + jsval)" where
  "getProduct rt this barcode =
     (case validateBarcode barcode False of
        Inl e \<Rightarrow> ([], Inl e)
      | Inr u \<Rightarrow>
          (let req = \<lparr>url = baseUrl this @ str ''/api/v0/product/'' @ ToString rt barcode, query = [],
                      http_method = ''GET'', headers = [], body = []\<rparr>
           in ([req],
               wrap_error ''Failed to fetch product: ''
                 (then_do (fetch_json rt req) (\<lambda>decoded.
                  then_do (get_prop decoded (str ''product'')) (\<lambda>product.
                  then_do (map_err (\<lambda>k. then_do (get_prop product k) (\<lambda>v. Inr (k, v))) product_fields)
                    (\<lambda>kvs. Inr (JObj kvs))))))))"

text \<open>addProduct (lines 366-395).\<close>

definition optional_text :: "jsval \<Rightarrow> jsstring \<Rightarrow> jsstring \<Rightarrow> js_error + (jsstring \<times> form_value) list" where
  "optional_text data k name =
     (let v = field data k
      in if truthy v then then_do (sanitizeSearchInput v) (\<lambda>s. Inr [(name, FormText s)])
         else Inr [])"

definition addProduct :: "runtime \<Rightarrow> client \<Rightarrow> jsval \<Rightarrow> request list \<times> (js_error + jsval)" where
  "addProduct rt this data =
     (case credentials this of
        None \<Rightarrow> ([], Inl (Error (str ''Credentials required for adding products'')))
      | Some (userId, password) \<Rightarrow>
          (case validateSecureConnection this of
             Inl e \<Rightarrow> ([], Inl e)
           | Inr u \<Rightarrow>
               (case then_do (get_prop data (str ''code'')) (\<lambda>code.
                       then_do (validateBarcode code False) (\<lambda>u. Inr code)) of
                  Inl e \<Rightarrow> ([], Inl e)
                | Inr code \<Rightarrow>
                    (case then_do (optional_text data (str ''brands'') (str ''brands'')) (\<lambda>brands.
                            then_do (optional_text data (str ''labels'') (str ''labels'')) (\<lambda>labels.
                              Inr ([(str ''code'', FormText (ToString rt code)),
                                    (str ''user_id'', FormText userId),
                                    (str ''password'', FormText password)] @ brands @ labels))) of
                       Inl e \<Rightarrow> ([], wrap_error ''Failed to add product: '' (Inl e))
                     | Inr formData \<Rightarrow>
                         (let req = \<lparr>url = baseUrl this @ str ''/cgi/product_jqm2.pl'', query = [],
                                     http_method = ''POST'', headers = createRequestHeaders,
                                     body = formData\<rparr>
                          in ([req], wrap_error ''Failed to add product: '' (fetch_json rt req)))))))"

text \<open>
  uploadPhoto (lines 406-445); the result carries the reads of the image as well.
\<close>

definition allowedFields :: "jsval list" where
  "allowedFields = [JStr (str ''front''), JStr (str ''ingredients''), JStr (str ''nutrition'')]"

definition check_photo_type :: "jsval \<Rightarrow> js_error + unit" where
  "check_photo_type type =
     (if \<not> truthy type \<or> \<not> truthy (field type (str ''field'')) \<or>
         \<not> truthy (field type (str ''languageCode'')) then
        Inl (Error (str ''Type with field and languageCode is required''))
      else if field type (str ''field'') \<notin> set allowedFields then
        Inl (Error (str ''Invalid field type. Must be front, ingredients, or nutrition.''))
      else Inr ())"

definition uploadPhoto ::
  "runtime \<Rightarrow> client \<Rightarrow> jsval \<Rightarrow> asset option \<Rightarrow> jsval \<Rightarrow> read_event list \<times> request list \<times> (js_error + jsval)" where
  "uploadPhoto rt this barcode img type =
     (case credentials this of
        None \<Rightarrow> ([], [], Inl (Error (str ''Credentials required for uploading photos'')))
      | Some (userId, password) \<Rightarrow>
          (case then_do (validateSecureConnection this) (\<lambda>u. validateBarcode barcode False) of
             Inl e \<Rightarrow> ([], [], Inl e)
           | Inr u \<Rightarrow>
               (case validateImageFile img of
                  (reads, Inl e) \<Rightarrow> (reads, [], Inl e)
                | (reads, Inr u) \<Rightarrow>
                    (case check_photo_type type of
                       Inl e \<Rightarrow> (reads, [], Inl e)
                     | Inr u \<Rightarrow>
                         (let name = ToString rt (field type (str ''field'')) @ str ''_'' @
                                     ToString rt (field type (str ''languageCode''));
                              req = \<lparr>url = baseUrl this @ str ''/cgi/product_image_upload.pl'',
                                     query = [], http_method = ''POST'',
                                     headers = createRequestHeaders,
                                     body = [(str ''code'', FormText (ToString rt barcode)),
                                             (str ''user_id'', FormText userId),
                                             (str ''password'', FormText password),
                                             (str ''imagefield'', FormText name),
                                             (str ''imgupload_'' @ name, FormFile img)]\<rparr>
                          in (reads, [req],
                              wrap_error ''Failed to upload photo: '' (fetch_json rt req)))))))"

text \<open>getTaxonomy and its three wrappers (lines 452-484), getRandomInsight (lines 492-508).\<close>

definition getTaxonomy :: "runtime \<Rightarrow> client \<Rightarrow> jsval \<Rightarrow> request list \<times> (js_error + jsval)" where
  "getTaxonomy rt this type =
     (let req = \<lparr>url = baseUrl this @ str ''/data/taxonomies/'' @ ToString rt type @ str ''.json'',
                 query = [], http_method = ''GET'', headers = [], body = []\<rparr>
      in ([req], wrap_error ''Failed to fetch taxonomy: '' (fetch_json rt req)))"

definition getAdditives :: "runtime \<Rightarrow> client \<Rightarrow> request list \<times> (js_error + jsval)" where
  "getAdditives rt this = getTaxonomy rt this (JStr (str ''additives''))"

definition getAllergens :: "runtime \<Rightarrow> client \<Rightarrow> request list \<times> (js_error + jsval)" where
  "getAllergens rt this = getTaxonomy rt this (JStr (str ''allergens''))"

definition getBrands :: "runtime \<Rightarrow> client \<Rightarrow> request list \<times> (js_error + jsval)" where
  "getBrands rt this = getTaxonomy rt this (JStr (str ''brands''))"

definition getRandomInsight :: "runtime \<Rightarrow> client \<Rightarrow> jsval \<Rightarrow> jsval \<Rightarrow> request list \<times> (js_error + jsval)" where
  "getRandomInsight rt this count_arg lang =
     (let count = (if count_arg = JUndefined then JNum (Finite 1) else count_arg)
      in if count = JNull then
           ([], wrap_error ''Failed to fetch random insight: ''
                  (Inl (TypeError (str ''Cannot read properties of null''))))
         else
           (let req = \<lparr>url = str ''https://robotoff.openfoodfacts.org/api/v1/questions/random'',
                       query = [(str ''count'', ToString rt count)] @
                               (if truthy lang then [(str ''lang'', ToString rt lang)] else []),
                       http_method = ''GET'', headers = [], body = []\<rparr>
            in ([req], wrap_error ''Failed to fetch random insight: '' (fetch_json rt req))))"

section \<open>Instances in a store\<close>

text \<open>
  Instances are objects with identity: \<^verbatim>\<open>new OpenFoodFactsAPI(url)\<close> allocates a
  fresh object and \<^verbatim>\<open>setCredentials\<close> assigns to a field of \<^verbatim>\<open>this\<close>. The store
  is the list of the instances allocated so far, a reference is a position in it (below
  its length: a reference always denotes an allocated instance). The
  class has no static member and the module no variable that a method assigns, so a
  method call is the method's model on the object that \<^verbatim>\<open>this\<close> refers to, and
  \<^verbatim>\<open>setCredentials\<close> is the only method with an assignment to a field.
\<close>

type_synonym store = "client list"

definition construct :: "store \<Rightarrow> jsstring option \<Rightarrow> store \<times> (js_error + nat)" where
  "construct h arg =
     (case new_client arg of
        Inl e \<Rightarrow> (h, Inl e)
      | Inr c \<Rightarrow> (h @ [c], Inr (length h)))"

datatype method_call =
    SetCredentials jsval jsval
  | GetProduct jsval
  | SearchProducts jsval
  | AddProduct jsval
  | UploadPhoto jsval "asset option" jsval
  | GetTaxonomy jsval
  | GetAdditives
  | GetAllergens
  | GetBrands
  | GetRandomInsight jsval jsval

fun invoke :: "runtime \<Rightarrow> store \<Rightarrow> nat \<Rightarrow> method_call \<Rightarrow> store \<times> (js_error + jsval)" where
  "invoke rt h r (SetCredentials userId password) =
     (case setCredentials (h ! r) userId password of
        Inl e \<Rightarrow> (h, Inl e)
      | Inr this \<Rightarrow> (h[r := this], Inr JUndefined))"
| "invoke rt h r (GetProduct barcode) = (h, snd (getProduct rt (h ! r) barcode))"
| "invoke rt h r (SearchProducts params) = (h, snd (searchProducts rt (h ! r) params))"
| "invoke rt h r (AddProduct data) = (h, snd (addProduct rt (h ! r) data))"
| "invoke rt h r (UploadPhoto barcode img type) =
     (h, snd (snd (uploadPhoto rt (h ! r) barcode img type)))"
| "invoke rt h r (GetTaxonomy type) = (h, snd (getTaxonomy rt (h ! r) type))"
| "invoke rt h r GetAdditives = (h, snd (getAdditives rt (h ! r)))"
| "invoke rt h r GetAllergens = (h, snd (getAllergens rt (h ! r)))"
| "invoke rt h r GetBrands = (h, snd (getBrands rt (h ! r)))"
| "invoke rt h r (GetRandomInsight count_arg lang) =
     (h, snd (getRandomInsight rt (h ! r) count_arg lang))"

section \<open>The specification's predicates\<close>

text \<open>
  The specification's barcode for full-barcode operations: a string of 8 to 13
  decimal digits.
\<close>

definition spec_full_barcode :: "jsstring \<Rightarrow> bool" where
  "spec_full_barcode s \<longleftrightarrow> 8 \<le> length s \<and> length s \<le> 13 \<and> set s \<subseteq> set (str ''0123456789'')"

text \<open>
  The characters of the specification's encoding rule (\<^verbatim>\<open>< > " '\<close> and the
  backtick; the ampersand remains as the first character of an escape), and the code
  units of which an escape consists.
\<close>

definition unsafe_unit :: "nat \<Rightarrow> bool" where
  "unsafe_unit c \<longleftrightarrow> c \<in> set (str ''<>\"'`'')"

definition escape_unit :: "nat \<Rightarrow> bool" where
  "escape_unit c \<longleftrightarrow> c \<in> set (str ''&#x;'') \<or> (48 \<le> c \<and> c \<le> 57) \<or> (65 \<le> c \<and> c \<le> 70)"

text \<open>
  The declared metadata of an asset passes the checks of lines 93-104: the type, when
  present, is one of the allowed types, and the size, when present, does not exceed
  the maximum.
\<close>

definition declared_ok :: "asset \<Rightarrow> bool" where
  "declared_ok file \<longleftrightarrow>
     (file_type file = JUndefined \<or> file_type file \<in> set allowedTypes) \<and>
     (case file_size file of None \<Rightarrow> True | Some n \<Rightarrow> \<not> num_gt n maxSize)"

text \<open>The signatures as the specification gives them, on the bytes read.\<close>

definition spec_jpeg :: "8 word list \<Rightarrow> bool" where
  "spec_jpeg bytes \<longleftrightarrow> take 3 bytes = [0xFF, 0xD8, 0xFF]"

definition spec_png :: "8 word list \<Rightarrow> bool" where
  "spec_png bytes \<longleftrightarrow> take 4 bytes = [0x89, 0x50, 0x4E, 0x47]"

definition spec_riff :: "8 word list \<Rightarrow> bool" where
  "spec_riff bytes \<longleftrightarrow> take 4 bytes = [0x52, 0x49, 0x46, 0x46]"

definition spec_webp_id :: "8 word list \<Rightarrow> bool" where
  "spec_webp_id bytes \<longleftrightarrow> take 4 (drop 8 bytes) = [0x57, 0x45, 0x42, 0x50]"



section \<open>Example assets\<close>

text \<open>
  The buffers of the test suite (a JPEG header, a RIFF header of an AVI container, a
  RIFF header cut short, 5 MB behind a JPEG header) and file objects over a buffer:
  without the partial read, with both reads, and with the partial read alone.
\<close>

definition jpeg_header :: "8 word list" where
  "jpeg_header = [0xFF, 0xD8, 0xFF, 0xE0, 0x00, 0x10, 0x4A, 0x46, 0x49, 0x46, 0x00, 0x01, 0x01, 0x00, 0x00, 0x01]"

definition riff_avi_header :: "8 word list" where
  "riff_avi_header = [0x52, 0x49, 0x46, 0x46, 0x00, 0x00, 0x00, 0x00, 0x41, 0x56, 0x49, 0x20, 0x00, 0x00, 0x00, 0x00]"

definition riff_short :: "8 word list" where
  "riff_short = [0x52, 0x49, 0x46, 0x46, 0x00, 0x00, 0x00, 0x00]"

definition buffer_file :: "jsstring \<Rightarrow> 8 word list \<Rightarrow> asset" where
  "buffer_file t content =
     \<lparr>file_type = JStr t, file_size = Some (Finite (real (length content))),
      file_arrayBuffer = Some (Inr content), file_slice = None\<rparr>"

definition sliceable_file :: "jsstring \<Rightarrow> 8 word list \<Rightarrow> asset" where
  "sliceable_file t content =
     \<lparr>file_type = JStr t, file_size = Some (Finite (real (length content))),
      file_arrayBuffer = Some (Inr content),
      file_slice = Some (\<lambda>start stop. Inr (Some (Inr (take (stop - start) (drop start content)))))\<rparr>"

definition slice_only_file :: "jsstring \<Rightarrow> 8 word list \<Rightarrow> asset" where
  "slice_only_file t content =
     \<lparr>file_type = JStr t, file_size = Some (Finite (real (length content))),
      file_arrayBuffer = None,
      file_slice = Some (\<lambda>start stop. Inr (Some (Inr (take (stop - start) (drop start content)))))\<rparr>"

definition large_content :: "8 word list" where
  "large_content = jpeg_header @ replicate (5 * 1024 * 1024 - 16) 0"

section \<open>Example clients and transports\<close>

text \<open>
  The members of \<^verbatim>\<open>Object.prototype\<close> in a standard environment, which a decoded
  JSON object inherits. The examples have no other receiver of \<^verbatim>\<open>in\<close>.
\<close>

definition object_prototype :: "(jsstring \<times> jsval) list" where
  "object_prototype =
     [(str ''constructor'', JFunction (str ''Object'')),
      (str ''__defineGetter__'', JFunction (str ''__defineGetter__'')),
      (str ''__defineSetter__'', JFunction (str ''__defineSetter__'')),
      (str ''hasOwnProperty'', JFunction (str ''hasOwnProperty'')),
      (str ''__lookupGetter__'', JFunction (str ''__lookupGetter__'')),
      (str ''__lookupSetter__'', JFunction (str ''__lookupSetter__'')),
      (str ''isPrototypeOf'', JFunction (str ''isPrototypeOf'')),
      (str ''propertyIsEnumerable'', JFunction (str ''propertyIsEnumerable'')),
      (str ''toString'', JFunction (str ''toString'')),
      (str ''valueOf'', JFunction (str ''valueOf'')),
      (str ''__proto__'', JPrototype (str ''Object.prototype'')),
      (str ''toLocaleString'', JFunction (str ''toLocaleString''))]"

definition standard_inherited :: "jsval \<Rightarrow> jsstring \<Rightarrow> jsval option" where
  "standard_inherited v k = (case v of JObj kvs \<Rightarrow> map_of object_prototype k | _ \<Rightarrow> None)"

text \<open>
  A transport that answers every request with the same result, and the client of the
  test suite: constructed with the default URL, then given credentials.
\<close>

definition mock_runtime :: "js_error + response \<Rightarrow> runtime" where
  "mock_runtime r =
     \<lparr>fetch = (\<lambda>req. r), to_string = (\<lambda>v. str ''[value]''),
      inherited = standard_inherited\<rparr>"

definition mockSuccessResponse :: "jsval \<Rightarrow> js_error + response" where
  "mockSuccessResponse data = Inr \<lparr>ok = True, status = JNum (Finite 200), json = Inr data\<rparr>"

definition default_client :: client where
  "default_client = \<lparr>baseUrl = str ''https://world.openfoodfacts.org'', credentials = None\<rparr>"

definition user_client :: client where
  "user_client = default_client\<lparr>credentials := Some (str ''user'', str ''pass'')\<rparr>"



definition search_params :: "(jsstring \<times> jsval) list \<Rightarrow> jsval" where
  "search_params others = JObj ((str ''search_terms'', JStr (str ''test'')) # others)"

definition test_query :: "(jsstring \<times> jsstring) list" where
  "test_query =
     [(str ''json'', str ''true''), (str ''action'', str ''process''),
      (str ''search_terms'', str ''test'')]"

section \<open>Barcode validation is the specification's predicate\<close>

lemma is_digit_iff: "is_digit c \<longleftrightarrow> c \<in> set (str ''0123456789'')"
  unfolding is_digit_def by (simp; arith)

lemma takeWhile_length_all: "length (takeWhile P xs) = length xs \<longleftrightarrow> (\<forall>x\<in>set xs. P x)"
  by (induction xs) auto

lemma all_digits_iff: "(\<forall>x\<in>set s. is_digit x) \<longleftrightarrow> set s \<subseteq> set (str ''0123456789'')"
  using is_digit_iff by blast

lemma test_digits_full: "test_digits 8 (Some 13) s \<longleftrightarrow> spec_full_barcode s"
proof (cases "length (takeWhile is_digit s) = length s")
  case True
  then have "set s \<subseteq> set (str ''0123456789'')"
    using all_digits_iff takeWhile_length_all by blast
  with True show ?thesis
    by (simp add: test_digits_def spec_full_barcode_def Let_def del: set_map list.set_map)
next
  case False
  then have "\<not> set s \<subseteq> set (str ''0123456789'')"
    using all_digits_iff takeWhile_length_all by blast
  with False show ?thesis
    by (simp add: test_digits_def spec_full_barcode_def Let_def del: set_map list.set_map)
qed

text \<open>
  C8. Full-barcode validation (\<open>allowPartial\<close> false) is a total function of its
  argument with three outcomes: a value that is not a string fails with
  "Barcode must be a string"; a string of 8 to 13 decimal digits passes; every other
  string fails with "Invalid barcode format. Must be 8-13 digits.". The validator is a
  pure function: it returns an outcome and has no other effect.
\<close>

theorem validateBarcode_full:
  "(typeof v \<noteq> ''string'' \<longrightarrow>
      validateBarcode v False = Inl (Error (str ''Barcode must be a string''))) \<and>
   (spec_full_barcode s \<longrightarrow> validateBarcode (JStr s) False = Inr ()) \<and>
   (\<not> spec_full_barcode s \<longrightarrow>
      validateBarcode (JStr s) False =
        Inl (Error (str ''Invalid barcode format. Must be 8-13 digits.'')))"
  by (cases v) (simp_all add: validateBarcode_def test_digits_full)

theorem validateBarcode_full_witness:
  "validateBarcode (JNum (Finite 123456789)) False = Inl (Error (str ''Barcode must be a string'')) \<and>
   validateBarcode (JStr (str ''3017620422003'')) False = Inr () \<and>
   validateBarcode (JStr (str ''abc123'')) False =
     Inl (Error (str ''Invalid barcode format. Must be 8-13 digits.''))"
  using validateBarcode_full [of "JNum (Finite 123456789)" "str ''3017620422003''"]
        validateBarcode_full [of JNull "str ''abc123''"]
  by (simp add: spec_full_barcode_def)

section \<open>Properties of the sanitiser\<close>

lemma replace_units_id: "\<forall>c\<in>set s. \<not> p c \<Longrightarrow> replace_units p s = s"
  by (induction s) (auto simp: replace_units_def)

lemma replace_astral_id: "\<forall>c\<in>set s. c < 55296 \<Longrightarrow> replace_astral s = s"
  by (induction s rule: replace_astral.induct) auto

lemma he_encode_plain:
  assumes "\<forall>c\<in>set s. 32 \<le> c \<and> c < 127 \<and> \<not> regexEscape c"
  shows "he_encode s = s"
proof -
  have 1: "replace_units regexEscape s = s"
    using assms by (intro replace_units_id) blast
  have 2: "replace_astral s = s"
    using assms by (intro replace_astral_id) auto
  have 3: "replace_units regexBmpWhitelist s = s"
    using assms by (intro replace_units_id) (auto simp: regexBmpWhitelist_def)
  show ?thesis by (simp add: he_encode_def 1 2 3)
qed

lemma trim_id:
  "s = [] \<or> (\<not> is_whitespace (hd s) \<and> \<not> is_whitespace (last s)) \<Longrightarrow> trim s = s"
proof (cases "s = []")
  case True
  then show ?thesis by (simp add: trim_def)
next
  case False
  assume "s = [] \<or> (\<not> is_whitespace (hd s) \<and> \<not> is_whitespace (last s))"
  with False have h: "\<not> is_whitespace (hd s)" and l: "\<not> is_whitespace (last s)"
    by simp_all
  from False h have 1: "dropWhile is_whitespace s = s"
    by (cases s) simp_all
  from False l have 2: "dropWhile is_whitespace (rev s) = rev s"
    by (cases s rule: rev_cases) simp_all
  show ?thesis by (simp add: trim_def 1 2)
qed

lemma trim_replicate: "\<not> is_whitespace c \<Longrightarrow> trim (replicate n c) = replicate n c"
  by (cases n) (simp_all add: trim_id del: replicate_Suc)

lemma last_dropWhile: "dropWhile P xs \<noteq> [] \<Longrightarrow> last (dropWhile P xs) = last xs"
  by (induction xs) (auto split: if_splits)

lemma trim_parts:
  "\<exists>pre post. s = pre @ trim s @ post \<and> list_all is_whitespace pre \<and> list_all is_whitespace post"
proof -
  let ?ys = "dropWhile is_whitespace s"
  let ?pre = "takeWhile is_whitespace s"
  let ?post = "rev (takeWhile is_whitespace (rev ?ys))"
  have "rev (takeWhile is_whitespace (rev ?ys) @ dropWhile is_whitespace (rev ?ys)) = rev (rev ?ys)"
    by (simp only: takeWhile_dropWhile_id)
  then have "?ys = trim s @ ?post"
    by (simp only: rev_append rev_rev_ident trim_def)
  moreover have "s = ?pre @ ?ys" by simp
  ultimately have "s = ?pre @ trim s @ ?post" by simp
  moreover have "list_all is_whitespace ?pre"
    by (simp add: list_all_iff) (meson set_takeWhileD)
  moreover have "list_all is_whitespace ?post"
    by (simp add: list_all_iff) (meson set_takeWhileD)
  ultimately show ?thesis by blast
qed

lemma trim_ends:
  "trim s = [] \<or> (\<not> is_whitespace (hd (trim s)) \<and> \<not> is_whitespace (last (trim s)))"
proof (cases "trim s = []")
  case True
  then show ?thesis by simp
next
  case False
  let ?ys = "dropWhile is_whitespace s"
  let ?zs = "dropWhile is_whitespace (rev ?ys)"
  from False have zs: "?zs \<noteq> []" by (simp add: trim_def)
  then have ys: "?ys \<noteq> []" by (metis dropWhile.simps(1) rev.simps(1))
  have "last (trim s) = hd ?zs"
    using zs by (simp add: trim_def last_rev)
  moreover have "\<not> is_whitespace (hd ?zs)"
    using zs by (rule hd_dropWhile)
  moreover have "hd (trim s) = last ?zs"
    using zs by (simp add: trim_def hd_rev)
  moreover have "last ?zs = last (rev ?ys)"
    using zs by (rule last_dropWhile)
  moreover have "last (rev ?ys) = hd ?ys"
    using ys by (simp add: last_rev)
  moreover have "\<not> is_whitespace (hd ?ys)"
    using ys by (rule hd_dropWhile)
  ultimately show ?thesis by simp
qed

lemma hex_digit_escape: "d < 16 \<Longrightarrow> escape_unit (hex_digit d)"
  by (auto simp: hex_digit_def escape_unit_def)

lemma to_hex_escape: "\<forall>c\<in>set (to_hex n). escape_unit c"
proof (induction n rule: to_hex.induct)
  case (1 n)
  show ?case
  proof (cases "n < 16")
    case True
    then show ?thesis by (simp add: hex_digit_escape)
  next
    case False
    with 1 have "\<forall>c\<in>set (to_hex (n div 16)). escape_unit c" by simp
    moreover have "escape_unit (hex_digit (n mod 16))"
      by (rule hex_digit_escape) simp
    moreover have "to_hex n = to_hex (n div 16) @ [hex_digit (n mod 16)]"
      using False by (subst to_hex.simps) simp
    ultimately show ?thesis by (auto simp del: to_hex.simps)
  qed
qed

lemma hexEscape_escape: "\<forall>c\<in>set (hexEscape n). escape_unit c"
  using to_hex_escape [of n] by (auto simp: hexEscape_def escape_unit_def simp del: to_hex.simps)

lemma escape_not_unsafe: "escape_unit c \<Longrightarrow> \<not> unsafe_unit c"
  by (auto simp: escape_unit_def unsafe_unit_def)

lemma replace_units_set:
  "c \<in> set (replace_units p s) \<Longrightarrow> (c \<in> set s \<and> \<not> p c) \<or> escape_unit c"
  using hexEscape_escape by (induction s) (auto simp: replace_units_def split: if_splits)

lemma replace_astral_set: "c \<in> set (replace_astral s) \<Longrightarrow> c \<in> set s \<or> escape_unit c"
  using hexEscape_escape by (induction s rule: replace_astral.induct) (auto split: if_splits)

lemma he_encode_safe: "\<forall>c\<in>set (he_encode s). \<not> unsafe_unit c"
proof
  fix c assume "c \<in> set (he_encode s)"
  then have "c \<in> set (replace_astral (replace_units regexEscape s)) \<or> escape_unit c"
    unfolding he_encode_def using replace_units_set by blast
  then have "c \<in> set (replace_units regexEscape s) \<or> escape_unit c"
    using replace_astral_set by blast
  then have "(c \<in> set s \<and> \<not> regexEscape c) \<or> escape_unit c"
    using replace_units_set by blast
  then show "\<not> unsafe_unit c"
    using escape_not_unsafe by (auto simp: regexEscape_def unsafe_unit_def)
qed

lemma set_trim: "set (trim s) \<subseteq> set s"
  using trim_parts [of s] by (metis Un_upper1 Un_upper2 set_append subset_trans)

lemma sanitize_safe:
  "sanitizeSearchInput (JStr s) = Inr out \<Longrightarrow> \<forall>c\<in>set out. \<not> unsafe_unit c"
proof -
  assume "sanitizeSearchInput (JStr s) = Inr out"
  then have "out = take 100 (trim (he_encode s))"
    by (simp add: sanitizeSearchInput_def sanitize_with_def substring_def)
  then have "set out \<subseteq> set (he_encode s)"
    using set_trim [of "he_encode s"] set_take_subset [of 100 "trim (he_encode s)"] by blast
  with he_encode_safe show ?thesis by blast
qed

lemma sanitize_script:
  "sanitizeSearchInput (JStr (str ''<script>alert(\"xss\")</script>Chocolate'')) =
     Inr (str ''&#x3C;script&#x3E;alert(&#x22;xss&#x22;)&#x3C;/script&#x3E;Chocolate'')"
  by (simp add: sanitizeSearchInput_def sanitize_with_def he_encode_def replace_units_def
      regexEscape_def regexBmpWhitelist_def hexEscape_def hex_digit_def trim_def
      is_whitespace_def substring_def)

lemma sanitize_long:
  "sanitizeSearchInput (JStr (replicate 150 (of_char CHR ''a''))) =
     Inr (replicate 100 (of_char CHR ''a''))"
proof -
  have "he_encode (replicate 150 97) = replicate 150 97"
    by (rule he_encode_plain) (simp add: regexEscape_def)
  moreover have "trim (replicate 150 97) = replicate 150 97"
    by (rule trim_replicate) (simp add: is_whitespace_def)
  ultimately show ?thesis
    by (simp add: sanitizeSearchInput_def sanitize_with_def substring_def)
qed

text \<open>
  C9. For every string the sanitiser returns the encoding of the input, trimmed, cut
  to its first 100 code units, whatever the encoder is: trimming removes a run of white
  space at each end and leaves a string that neither begins nor ends with white space.
  With the encoder of the client the result has at most 100 code units and none of
  \<^verbatim>\<open>< > " '\<close> and the backtick; the script example yields the encoded text of the
  specification, and 150 letters a yield 100 letters a.
\<close>

theorem sanitizeSearchInput_spec:
  "sanitize_with encode (JStr s) = Inr (take 100 (trim (encode s))) \<and>
   (\<exists>pre post. encode s = pre @ trim (encode s) @ post \<and>
       list_all is_whitespace pre \<and> list_all is_whitespace post) \<and>
   (trim (encode s) = [] \<or>
    (\<not> is_whitespace (hd (trim (encode s))) \<and> \<not> is_whitespace (last (trim (encode s))))) \<and>
   (\<exists>out. sanitizeSearchInput (JStr s) = Inr out \<and> out = take 100 (trim (he_encode s)) \<and>
          length out \<le> 100 \<and> (\<forall>c\<in>set out. \<not> unsafe_unit c)) \<and>
   sanitizeSearchInput (JStr (str ''<script>alert(\"xss\")</script>Chocolate'')) =
     Inr (str ''&#x3C;script&#x3E;alert(&#x22;xss&#x22;)&#x3C;/script&#x3E;Chocolate'') \<and>
   sanitizeSearchInput (JStr (replicate 150 (of_char CHR ''a''))) =
     Inr (replicate 100 (of_char CHR ''a''))"
proof -
  have 1: "sanitize_with encode (JStr s) = Inr (take 100 (trim (encode s)))"
    by (simp add: sanitize_with_def substring_def)
  have 2: "sanitizeSearchInput (JStr s) = Inr (take 100 (trim (he_encode s)))"
    by (simp add: sanitizeSearchInput_def sanitize_with_def substring_def)
  have 3: "\<forall>c\<in>set (take 100 (trim (he_encode s))). \<not> unsafe_unit c"
    using 2 by (rule sanitize_safe)
  from 1 2 3 trim_parts [of "encode s"] trim_ends [of "encode s"] sanitize_script sanitize_long
  show ?thesis by simp
qed

theorem sanitizeSearchInput_spec_witness:
  "sanitize_with rev (JStr (str ''  etalocohc  '')) = Inr (str ''chocolate'') \<and>
   sanitizeSearchInput (JStr (str ''Ben & Jerry's  '')) = Inr (str ''Ben &#x26; Jerry&#x27;s'')"
  using sanitizeSearchInput_spec [of rev "str ''  etalocohc  ''"]
        sanitizeSearchInput_spec [of rev "str ''Ben & Jerry's  ''"]
  by (simp add: he_encode_def replace_units_def regexEscape_def regexBmpWhitelist_def
      hexEscape_def hex_digit_def trim_def is_whitespace_def)

section \<open>Properties of image validation\<close>

lemma every_at_take_drop:
  "every_at signature offset bytes \<longleftrightarrow> take (length signature) (drop offset bytes) = signature"
proof (induction signature arbitrary: offset)
  case Nil
  then show ?case by simp
next
  case (Cons b signature)
  show ?case
  proof (cases "offset < length bytes")
    case True
    then have "drop offset bytes = bytes ! offset # drop (Suc offset) bytes"
      by (simp add: Cons_nth_drop_Suc)
    with True Cons show ?thesis by (simp add: byte_at_def)
  next
    case False
    then show ?thesis by (simp add: byte_at_def)
  qed
qed

lemma every_at_jpeg: "every_at [0xFF, 0xD8, 0xFF] 0 bytes \<longleftrightarrow> spec_jpeg bytes"
  unfolding every_at_take_drop spec_jpeg_def by (simp add: numeral_3_eq_3)

lemma every_at_png: "every_at [0x89, 0x50, 0x4E, 0x47] 0 bytes \<longleftrightarrow> spec_png bytes"
  unfolding every_at_take_drop spec_png_def by (simp add: eval_nat_numeral)

lemma every_at_riff: "every_at [0x52, 0x49, 0x46, 0x46] 0 bytes \<longleftrightarrow> spec_riff bytes"
  unfolding every_at_take_drop spec_riff_def by (simp add: eval_nat_numeral)

lemma every_at_webp: "every_at webpIdentifier 8 bytes \<longleftrightarrow> spec_webp_id bytes"
  unfolding every_at_take_drop spec_webp_id_def webpIdentifier_def by (simp add: eval_nat_numeral)

lemma check_signatures_spec:
  "check_signatures signatures bytes \<longleftrightarrow>
     spec_jpeg bytes \<or> spec_png bytes \<or>
     (spec_riff bytes \<and> (12 \<le> length bytes \<longrightarrow> spec_webp_id bytes))"
  by (simp add: signatures_def every_at_jpeg every_at_png every_at_riff every_at_webp
      del: every_at.simps)

lemma check_magic_bytes:
  "check_magic (Inr bytes) =
     (if check_signatures signatures bytes then Inr () else Inl (Error content_mismatch))"
  by (simp add: check_magic_def)

lemma validateImageFile_read:
  assumes "declared_ok file" and "file_arrayBuffer file = Some full"
    and "read_bytes file full = (reads, r)"
  shows "validateImageFile (Some file) = (reads, check_magic r)"
  using assms by (auto simp: validateImageFile_def declared_ok_def split: option.splits)

lemma riff_not_others: "spec_riff bytes \<Longrightarrow> \<not> spec_jpeg bytes \<and> \<not> spec_png bytes"
  by (cases bytes) (auto simp: spec_riff_def spec_jpeg_def spec_png_def)

text \<open>
  C3. For an asset whose declared metadata passes and whose read yields 16 bytes:
  validation passes when the bytes begin with FF D8 FF, or with 89 50 4E 47, or with
  52 49 46 46 and have 57 45 42 50 at offsets 8 to 11; it fails with the message
  "File content does not match allowed image formats" when the bytes begin with
  52 49 46 46 without 57 45 42 50 at offsets 8 to 11, and when they begin with none of
  the three signatures.
\<close>

theorem validateImageFile_signature:
  assumes "declared_ok file" and "file_arrayBuffer file = Some full"
    and "read_bytes file full = (reads, Inr bytes)" and "length bytes = 16"
  shows "(spec_jpeg bytes \<or> spec_png bytes \<or> (spec_riff bytes \<and> spec_webp_id bytes) \<longrightarrow>
            validateImageFile (Some file) = (reads, Inr ())) \<and>
         ((spec_riff bytes \<and> \<not> spec_webp_id bytes) \<or>
          \<not> (spec_jpeg bytes \<or> spec_png bytes \<or> spec_riff bytes) \<longrightarrow>
            validateImageFile (Some file) =
              (reads, Inl (Error (str ''File content does not match allowed image formats''))))"
proof -
  have v: "validateImageFile (Some file) = (reads, check_magic (Inr bytes))"
    using assms(1-3) by (rule validateImageFile_read)
  have c: "check_signatures signatures bytes \<longleftrightarrow>
             spec_jpeg bytes \<or> spec_png bytes \<or> (spec_riff bytes \<and> spec_webp_id bytes)"
    using assms(4) by (simp add: check_signatures_spec)
  show ?thesis
    using riff_not_others [of bytes]
    by (auto simp: v c check_magic_bytes content_mismatch_def)
qed

text \<open>
  C10. For an asset whose declared metadata passes and whose read yields fewer than 12
  bytes beginning with 52 49 46 46, validation passes: the check of the identifier at
  offsets 8 to 11 is made only when at least 12 bytes were read.
\<close>

theorem validateImageFile_short_riff:
  assumes "declared_ok file" and "file_arrayBuffer file = Some full"
    and "read_bytes file full = (reads, Inr bytes)"
    and "spec_riff bytes" and "length bytes < 12"
  shows "validateImageFile (Some file) = (reads, Inr ())"
proof -
  have v: "validateImageFile (Some file) = (reads, check_magic (Inr bytes))"
    using assms(1-3) by (rule validateImageFile_read)
  have "check_signatures signatures bytes"
    using assms(4,5) by (simp add: check_signatures_spec)
  then show ?thesis by (simp add: v check_magic_bytes)
qed

lemma declared_ok_buffer_file:
  "JStr t \<in> set allowedTypes \<Longrightarrow> length content \<le> 10485760 \<Longrightarrow> declared_ok (buffer_file t content)"
  by (simp add: declared_ok_def buffer_file_def maxSize_def)

lemma declared_ok_sliceable_file:
  "JStr t \<in> set allowedTypes \<Longrightarrow> length content \<le> 10485760 \<Longrightarrow> declared_ok (sliceable_file t content)"
  by (simp add: declared_ok_def sliceable_file_def maxSize_def)

theorem validateImageFile_signature_witness:
  "validateImageFile (Some (buffer_file (str ''image/jpeg'') jpeg_header)) = ([FileArrayBuffer], Inr ()) \<and>
   validateImageFile (Some (sliceable_file (str ''image/webp'') riff_avi_header)) =
     ([SliceCall 0 16, SliceArrayBuffer],
      Inl (Error (str ''File content does not match allowed image formats'')))"
proof -
  have 1: "declared_ok (buffer_file (str ''image/jpeg'') jpeg_header)"
    by (rule declared_ok_buffer_file) (simp_all add: allowedTypes_def jpeg_header_def)
  have 2: "declared_ok (sliceable_file (str ''image/webp'') riff_avi_header)"
    by (rule declared_ok_sliceable_file) (simp_all add: allowedTypes_def riff_avi_header_def)
  have 3: "read_bytes (buffer_file (str ''image/jpeg'') jpeg_header) (Inr jpeg_header) =
             ([FileArrayBuffer], Inr jpeg_header)"
    by (simp add: read_bytes_def buffer_file_def jpeg_header_def BYTES_TO_READ_def)
  have 4: "read_bytes (sliceable_file (str ''image/webp'') riff_avi_header) (Inr riff_avi_header) =
             ([SliceCall 0 16, SliceArrayBuffer], Inr riff_avi_header)"
    by (simp add: read_bytes_def sliceable_file_def riff_avi_header_def BYTES_TO_READ_def)
  have 5: "spec_jpeg jpeg_header" by (simp add: spec_jpeg_def jpeg_header_def)
  have 6: "spec_riff riff_avi_header \<and> \<not> spec_webp_id riff_avi_header"
    by (simp add: spec_riff_def spec_webp_id_def riff_avi_header_def)
  show ?thesis
    using validateImageFile_signature [OF 1 _ 3] validateImageFile_signature [OF 2 _ 4] 5 6
    by (simp add: buffer_file_def sliceable_file_def jpeg_header_def riff_avi_header_def)
qed

theorem validateImageFile_short_riff_witness:
  "validateImageFile (Some (buffer_file (str ''image/webp'') riff_short)) = ([FileArrayBuffer], Inr ()) \<and>
   validateImageFile (Some (sliceable_file (str ''image/webp'') riff_short)) =
     ([SliceCall 0 16, SliceArrayBuffer], Inr ())"
proof -
  have 1: "declared_ok (buffer_file (str ''image/webp'') riff_short)"
    by (rule declared_ok_buffer_file) (simp_all add: allowedTypes_def riff_short_def)
  have 2: "declared_ok (sliceable_file (str ''image/webp'') riff_short)"
    by (rule declared_ok_sliceable_file) (simp_all add: allowedTypes_def riff_short_def)
  have 3: "read_bytes (buffer_file (str ''image/webp'') riff_short) (Inr riff_short) =
             ([FileArrayBuffer], Inr riff_short)"
    by (simp add: read_bytes_def buffer_file_def riff_short_def BYTES_TO_READ_def)
  have 4: "read_bytes (sliceable_file (str ''image/webp'') riff_short) (Inr riff_short) =
             ([SliceCall 0 16, SliceArrayBuffer], Inr riff_short)"
    by (simp add: read_bytes_def sliceable_file_def riff_short_def BYTES_TO_READ_def)
  have 5: "spec_riff riff_short" by (simp add: spec_riff_def riff_short_def)
  have 6: "length riff_short < 12" by (simp add: riff_short_def)
  show ?thesis
    using validateImageFile_short_riff [OF 1 _ 3 5 6] validateImageFile_short_riff [OF 2 _ 4 5 6]
    by (simp add: buffer_file_def sliceable_file_def)
qed

lemma read_bytes_slice:
  assumes "file_slice file = Some sl"
  shows "read_bytes file full =
           (case sl 0 16 of
              Inl e \<Rightarrow> ([SliceCall 0 16], Inl e)
            | Inr None \<Rightarrow>
                ([SliceCall 0 16], Inl (TypeError (str ''slicedFile.arrayBuffer is not a function'')))
            | Inr (Some r) \<Rightarrow> ([SliceCall 0 16, SliceArrayBuffer], r))"
  unfolding read_bytes_def BYTES_TO_READ_def using assms by simp

lemma validateImageFile_slice:
  assumes "file_slice file = Some sl" and "declared_ok file" and "file_arrayBuffer file \<noteq> None"
  shows "validateImageFile (Some file) =
           (case sl 0 16 of
              Inl e \<Rightarrow> ([SliceCall 0 16], check_magic (Inl e))
            | Inr None \<Rightarrow> ([SliceCall 0 16], Inr ())
            | Inr (Some r) \<Rightarrow> ([SliceCall 0 16, SliceArrayBuffer], check_magic r))"
proof -
  from assms(3) obtain full where f: "file_arrayBuffer file = Some full" by auto
  obtain reads r where rb: "read_bytes file full = (reads, r)"
    by (cases "read_bytes file full")
  have v: "validateImageFile (Some file) = (reads, check_magic r)"
    using assms(2) f rb by (rule validateImageFile_read)
  from rb read_bytes_slice [OF assms(1), of full] show ?thesis
    unfolding v by (auto simp: check_magic_def content_mismatch_def split: sum.splits option.splits)
qed

lemma validateImageFile_unread:
  assumes "\<not> declared_ok file \<or> file_arrayBuffer file = None"
  shows "fst (validateImageFile (Some file)) = []"
    and "declared_ok file \<Longrightarrow> validateImageFile (Some file) = ([], Inr ())"
  using assms by (auto simp: validateImageFile_def declared_ok_def split: option.splits)

text \<open>
  C2, as amended. For an asset with the partial read, validation never calls the full
  read of the asset. When the declared metadata passes and the asset has a function
  \<^verbatim>\<open>arrayBuffer\<close>, validation calls \<^verbatim>\<open>slice(0, 16)\<close> and reads the buffer of the
  slice that this call returns, and nothing else, and the bytes of that buffer decide
  the outcome by the signature check (a call of \<^verbatim>\<open>slice\<close> that throws, or returns no
  readable slice, ends the reads there). When the declared metadata fails, or the asset
  has no function \<^verbatim>\<open>arrayBuffer\<close>, validation makes no read at all, and in the second
  case it passes.
\<close>

theorem validateImageFile_partial_read:
  assumes "file_slice file = Some sl"
  shows "FileArrayBuffer \<notin> set (fst (validateImageFile (Some file))) \<and>
         (declared_ok file \<and> file_arrayBuffer file \<noteq> None \<longrightarrow>
            validateImageFile (Some file) =
              (case sl 0 16 of
                 Inl e \<Rightarrow> ([SliceCall 0 16], check_magic (Inl e))
               | Inr None \<Rightarrow> ([SliceCall 0 16], Inr ())
               | Inr (Some r) \<Rightarrow> ([SliceCall 0 16, SliceArrayBuffer], check_magic r))) \<and>
         (declared_ok file \<and> file_arrayBuffer file \<noteq> None \<and> sl 0 16 = Inr (Some (Inr bytes)) \<longrightarrow>
            validateImageFile (Some file) =
              ([SliceCall 0 16, SliceArrayBuffer],
               if check_signatures signatures bytes then Inr ()
               else Inl (Error (str ''File content does not match allowed image formats'')))) \<and>
         (\<not> declared_ok file \<or> file_arrayBuffer file = None \<longrightarrow>
            fst (validateImageFile (Some file)) = []) \<and>
         (declared_ok file \<and> file_arrayBuffer file = None \<longrightarrow>
            validateImageFile (Some file) = ([], Inr ()))"
proof -
  have a: "FileArrayBuffer \<notin> set (fst (validateImageFile (Some file)))"
  proof (cases "declared_ok file \<and> file_arrayBuffer file \<noteq> None")
    case True
    then show ?thesis
      using validateImageFile_slice [OF assms]
      by (auto split: sum.splits option.splits)
  next
    case False
    then show ?thesis
      using validateImageFile_unread(1) by auto
  qed
  have b: "declared_ok file \<and> file_arrayBuffer file \<noteq> None \<longrightarrow>
            validateImageFile (Some file) =
              (case sl 0 16 of
                 Inl e \<Rightarrow> ([SliceCall 0 16], check_magic (Inl e))
               | Inr None \<Rightarrow> ([SliceCall 0 16], Inr ())
               | Inr (Some r) \<Rightarrow> ([SliceCall 0 16, SliceArrayBuffer], check_magic r))"
    using validateImageFile_slice [OF assms] by blast
  have c: "declared_ok file \<and> file_arrayBuffer file \<noteq> None \<and> sl 0 16 = Inr (Some (Inr bytes)) \<longrightarrow>
            validateImageFile (Some file) =
              ([SliceCall 0 16, SliceArrayBuffer],
               if check_signatures signatures bytes then Inr ()
               else Inl (Error (str ''File content does not match allowed image formats'')))"
    using validateImageFile_slice [OF assms]
    by (auto simp: check_magic_bytes content_mismatch_def)
  have d: "\<not> declared_ok file \<or> file_arrayBuffer file = None \<longrightarrow>
            fst (validateImageFile (Some file)) = []"
    using validateImageFile_unread(1) by blast
  have e: "declared_ok file \<and> file_arrayBuffer file = None \<longrightarrow>
            validateImageFile (Some file) = ([], Inr ())"
    using validateImageFile_unread(2) by blast
  from a b c d e show ?thesis by blast
qed

lemma declared_ok_slice_only_file:
  "JStr t \<in> set allowedTypes \<Longrightarrow> length content \<le> 10485760 \<Longrightarrow> declared_ok (slice_only_file t content)"
  by (simp add: declared_ok_def slice_only_file_def maxSize_def)

lemma large_content_head: "take 16 large_content = jpeg_header"
  by (simp add: large_content_def jpeg_header_def)

lemma jpeg_header_ok: "check_signatures signatures jpeg_header"
  by (simp add: check_signatures_spec spec_jpeg_def jpeg_header_def)

theorem validateImageFile_partial_read_witness:
  "validateImageFile (Some (sliceable_file (str ''image/jpeg'') large_content)) =
     ([SliceCall 0 16, SliceArrayBuffer], Inr ()) \<and>
   validateImageFile (Some (sliceable_file (str ''image/webp'') riff_avi_header)) =
     ([SliceCall 0 16, SliceArrayBuffer],
      Inl (Error (str ''File content does not match allowed image formats''))) \<and>
   validateImageFile (Some (slice_only_file (str ''image/jpeg'') large_content)) = ([], Inr ())"
proof -
  let ?sl = "\<lambda>content start stop. (Inr (Some (Inr (take (stop - start) (drop start content))))
               :: js_error + read_result option)"
  have 0: "file_slice (sliceable_file (str ''image/jpeg'') large_content) = Some (?sl large_content)"
    "file_slice (sliceable_file (str ''image/webp'') riff_avi_header) = Some (?sl riff_avi_header)"
    "file_slice (slice_only_file (str ''image/jpeg'') large_content) = Some (?sl large_content)"
    by (simp_all add: sliceable_file_def slice_only_file_def)
  have 1: "declared_ok (sliceable_file (str ''image/jpeg'') large_content)"
    by (rule declared_ok_sliceable_file) (simp_all add: allowedTypes_def large_content_def jpeg_header_def)
  have 2: "declared_ok (sliceable_file (str ''image/webp'') riff_avi_header)"
    by (rule declared_ok_sliceable_file) (simp_all add: allowedTypes_def riff_avi_header_def)
  have 3: "declared_ok (slice_only_file (str ''image/jpeg'') large_content)"
    by (rule declared_ok_slice_only_file) (simp_all add: allowedTypes_def large_content_def jpeg_header_def)
  have 4: "file_arrayBuffer (sliceable_file (str ''image/jpeg'') large_content) \<noteq> None"
    "file_arrayBuffer (sliceable_file (str ''image/webp'') riff_avi_header) \<noteq> None"
    "file_arrayBuffer (slice_only_file (str ''image/jpeg'') large_content) = None"
    by (simp_all add: sliceable_file_def slice_only_file_def)
  have 5: "?sl large_content 0 16 = Inr (Some (Inr jpeg_header))"
    by (simp add: large_content_head)
  have 6: "?sl riff_avi_header 0 16 = Inr (Some (Inr riff_avi_header))"
    by (simp add: riff_avi_header_def)
  have 7: "\<not> check_signatures signatures riff_avi_header"
    by (simp add: check_signatures_spec spec_jpeg_def spec_png_def spec_riff_def spec_webp_id_def
        riff_avi_header_def)
  have a: "validateImageFile (Some (sliceable_file (str ''image/jpeg'') large_content)) =
      ([SliceCall 0 16, SliceArrayBuffer], Inr ())"
    using validateImageFile_partial_read [OF 0(1), of jpeg_header] 1 4(1) 5 jpeg_header_ok
    by (simp add: check_magic_bytes)
  have b: "validateImageFile (Some (sliceable_file (str ''image/webp'') riff_avi_header)) =
      ([SliceCall 0 16, SliceArrayBuffer],
       Inl (Error (str ''File content does not match allowed image formats'')))"
    using validateImageFile_partial_read [OF 0(2), of riff_avi_header] 2 4(2) 6 7
    by (simp add: check_magic_bytes content_mismatch_def)
  have c: "validateImageFile (Some (slice_only_file (str ''image/jpeg'') large_content)) = ([], Inr ())"
    using validateImageFile_partial_read [OF 0(3)] 3 4(3)
    by blast
  from a b c show ?thesis by blast
qed

text \<open>
  C2 as stated fails: an asset with the partial read and no function
  \<^verbatim>\<open>arrayBuffer\<close> is not read at all (the test of line 107 guards the whole of the
  content check, the call of \<^verbatim>\<open>slice\<close> included), so no byte range is requested, and
  the header of an AVI container passes.
\<close>

theorem slice_only_counterexample:
  "file_slice (slice_only_file (str ''image/webp'') riff_avi_header) \<noteq> None \<and>
   validateImageFile (Some (slice_only_file (str ''image/webp'') riff_avi_header)) = ([], Inr ()) \<and>
   SliceCall 0 16 \<notin> set (fst (validateImageFile (Some (slice_only_file (str ''image/webp'') riff_avi_header))))"
  by (simp add: validateImageFile_def slice_only_file_def allowedTypes_def maxSize_def
      riff_avi_header_def)

section \<open>Secure transport is checked at the point of use\<close>

lemma example_clients:
  "new_client None = Inr default_client"
  "setCredentials default_client (JStr (str ''user'')) (JStr (str ''pass'')) = Inr user_client"
  by (simp_all add: new_client_def default_client_def user_client_def setCredentials_def
      startsWith_def trim_def is_whitespace_def)

text \<open>
  C4. The constructor called with a URL that does not start with \<^verbatim>\<open>https://\<close>
  throws "HTTPS is required for secure API access. Use https:// URLs only."; and on an
  instance that has credentials and whose base URL does not start with
  \<^verbatim>\<open>https://\<close> (the field was assigned after construction), addProduct and
  uploadPhoto throw "Cannot send credentials over non-HTTPS connection. HTTPS is
  required for authenticated requests." with no request made and no read of the image.
\<close>

theorem secure_transport:
  "(\<not> startsWith u (str ''https://'') \<longrightarrow>
      new_client (Some u) =
        Inl (Error (str ''HTTPS is required for secure API access. Use https:// URLs only.''))) \<and>
   (credentials this \<noteq> None \<and> \<not> startsWith (baseUrl this) (str ''https://'') \<longrightarrow>
      addProduct rt this data =
        ([], Inl (Error (str ''Cannot send credentials over non-HTTPS connection. HTTPS is required for authenticated requests.''))) \<and>
      uploadPhoto rt this barcode img type =
        ([], [], Inl (Error (str ''Cannot send credentials over non-HTTPS connection. HTTPS is required for authenticated requests.''))))"
  by (auto simp: new_client_def addProduct_def uploadPhoto_def validateSecureConnection_def
      then_do_def simp del: list.map)

theorem secure_transport_witness:
  "new_client (Some (str ''http://world.openfoodfacts.org'')) =
     Inl (Error (str ''HTTPS is required for secure API access. Use https:// URLs only.'')) \<and>
   addProduct (mock_runtime (mockSuccessResponse JNull))
     (user_client\<lparr>baseUrl := str ''http://world.openfoodfacts.org''\<rparr>)
     (JObj [(str ''code'', JStr (str ''3017620422003''))]) =
     ([], Inl (Error (str ''Cannot send credentials over non-HTTPS connection. HTTPS is required for authenticated requests.''))) \<and>
   uploadPhoto (mock_runtime (mockSuccessResponse JNull))
     (user_client\<lparr>baseUrl := str ''http://world.openfoodfacts.org''\<rparr>)
     (JStr (str ''3017620422003'')) (Some (buffer_file (str ''image/jpeg'') jpeg_header))
     (JObj [(str ''field'', JStr (str ''front'')), (str ''languageCode'', JStr (str ''en''))]) =
     ([], [], Inl (Error (str ''Cannot send credentials over non-HTTPS connection. HTTPS is required for authenticated requests.'')))"
  using secure_transport [of "str ''http://world.openfoodfacts.org''"
      "user_client\<lparr>baseUrl := str ''http://world.openfoodfacts.org''\<rparr>"]
  by (simp add: startsWith_def user_client_def default_client_def)

section \<open>Instances are isolated\<close>

lemma invoke_length: "length (fst (invoke rt h a c)) = length h"
  by (cases c) (simp_all split: sum.splits)

lemma invoke_frame: "a \<noteq> b \<Longrightarrow> fst (invoke rt h a c) ! b = h ! b"
  by (cases c) (simp_all split: sum.splits)

lemma construct_fresh:
  assumes "construct h arg = (h', Inr b)"
  shows "b = length h" and "credentials (h' ! b) = None" and "\<forall>a<length h. h' ! a = h ! a"
    and "length h' = Suc (length h)"
  using assms
  by (auto simp: construct_def new_client_def Let_def nth_append split: sum.splits if_splits)

text \<open>
  C1. A method call on the instance at \<open>a\<close> leaves every other instance of the store
  as it was (so neither its base URL nor its credentials change) and allocates
  nothing; and when an instance is constructed, given credentials, and a second
  instance is constructed afterwards, the two are different objects, the second has no
  credentials, and the first keeps its fields.
\<close>

theorem instances_isolated:
  "(a \<noteq> b \<longrightarrow> fst (invoke rt h a c) ! b = h ! b) \<and>
   length (fst (invoke rt h a c)) = length h \<and>
   (construct h0 argA = (h1, Inr a) \<and> invoke rt h1 a (SetCredentials userId password) = (h2, res) \<and>
    construct h2 argB = (h3, Inr b) \<longrightarrow>
      a \<noteq> b \<and> credentials (h3 ! b) = None \<and> h3 ! a = h2 ! a \<and> baseUrl (h3 ! a) = baseUrl (h1 ! a))"
proof (intro conjI impI)
  show "fst (invoke rt h a c) ! b = h ! b" if "a \<noteq> b"
    using that by (rule invoke_frame)
  show "length (fst (invoke rt h a c)) = length h"
    by (rule invoke_length)
next
  assume h: "construct h0 argA = (h1, Inr a) \<and>
    invoke rt h1 a (SetCredentials userId password) = (h2, res) \<and> construct h2 argB = (h3, Inr b)"
  then have a: "a = length h0" and l1: "length h1 = Suc (length h0)"
    using construct_fresh(1,4) by blast+
  from h have l2: "length h2 = length h1"
    using invoke_length [of rt h1 a "SetCredentials userId password"] by simp
  from h have b: "b = length h2" and cb: "credentials (h3 ! b) = None"
    and keep: "\<forall>a<length h2. h3 ! a = h2 ! a"
    using construct_fresh(1-3) by blast+
  from a b l1 l2 show "a \<noteq> b" by simp
  from cb show "credentials (h3 ! b) = None" .
  from keep a l1 l2 show e: "h3 ! a = h2 ! a" by simp
  from h a l1 have "baseUrl (h2 ! a) = baseUrl (h1 ! a)"
    by (auto simp: setCredentials_def split: sum.splits jsval.splits if_splits)
  with e show "baseUrl (h3 ! a) = baseUrl (h1 ! a)" by simp
qed


theorem instances_isolated_witness:
  "construct [] None = ([default_client], Inr 0) \<and>
   invoke (mock_runtime (mockSuccessResponse JNull)) [default_client] 0
     (SetCredentials (JStr (str ''user'')) (JStr (str ''pass''))) = ([user_client], Inr JUndefined) \<and>
   construct [user_client] None = ([user_client, default_client], Inr 1) \<and>
   credentials ([user_client, default_client] ! 1) = None \<and>
   [user_client, default_client] ! 0 = [user_client] ! 0"
proof -
  have 1: "construct [] None = ([default_client], Inr 0)"
    by (simp add: construct_def example_clients)
  have 2: "invoke (mock_runtime (mockSuccessResponse JNull)) [default_client] 0
     (SetCredentials (JStr (str ''user'')) (JStr (str ''pass''))) = ([user_client], Inr JUndefined)"
    by (simp only: invoke.simps nth_Cons_0 example_clients) simp
  have 3: "construct [user_client] None = ([user_client, default_client], Inr 1)"
    by (simp add: construct_def example_clients)
  show ?thesis
    using instances_isolated [of 0 1 _ _ _ "[]" None "[default_client]" "JStr (str ''user'')"
        "JStr (str ''pass'')" "[user_client]" "Inr JUndefined" None "[user_client, default_client]"]
      1 2 3
    by simp
qed

section \<open>Field projection of search results\<close>






lemma search_try_response:
  assumes "build_search_query rt params = Inr q"
    and "fetch rt (search_request this q) = Inr resp" and "ok resp" and "json resp = Inr data"
  shows "search_try rt this params =
          ([search_request this q],
           if \<not> truthy data \<or> typeof data \<noteq> ''object'' then Inl (Error (str ''Invalid response format''))
           else filter_fields rt (field params (str ''fields'')) data)"
  using assms by (simp add: search_try_def then_do_def del: list.map)


lemma test_queries:
  "build_search_query rt (search_params []) = Inr test_query"
  "build_search_query rt (search_params [(str ''fields'', JArr [])]) = Inr test_query"
  "build_search_query rt
     (search_params [(str ''fields'', JArr [JStr (str ''code''), JStr (str ''product_name'')])]) =
     Inr test_query"
  "build_search_query rt
     (search_params [(str ''fields'', JArr [JStr (str ''constructor''), JStr (str ''code'')])]) =
     Inr test_query"
  by (simp_all add: search_params_def test_query_def build_search_query_def then_do_def
      get_prop_def field_def tag_params_def ToString_def sanitizeSearchInput_def
      sanitize_with_def he_encode_def replace_units_def regexEscape_def regexBmpWhitelist_def
      trim_def is_whitespace_def substring_def Let_def)


lemma mock_fetch: "fetch (mock_runtime r) req = r"
  by (simp add: mock_runtime_def)




section \<open>Failures of a search\<close>







text \<open>
  C7, as amended. When the query is built: a response that is \<^verbatim>\<open>ok\<close> with a decoded
  body that is \<^verbatim>\<open>null\<close> or not an object fails with the bare message
  "Invalid response format"; a failure of \<^verbatim>\<open>fetch\<close> with message \<open>m\<close> is wrapped as
  "Failed to search products: " followed by \<open>m\<close> when the error is not an
  \<^verbatim>\<open>OpenFoodFactsError\<close> and \<open>m\<close> is not "Invalid response format"; in these two
  cases the error thrown by \<^verbatim>\<open>fetch\<close> reaches the caller as it is.
\<close>

theorem search_failures:
  assumes "build_search_query rt params = Inr q"
  shows "(fetch rt (search_request this q) = Inr resp \<and> ok resp \<and> json resp = Inr data \<and>
          (data = JNull \<or> typeof data \<noteq> ''object'') \<longrightarrow>
            searchProducts rt this params =
              ([search_request this q], Inl (Error (str ''Invalid response format'')))) \<and>
         (fetch rt (search_request this q) = Inl e \<and> \<not> instanceof_OpenFoodFactsError e \<and>
          message e \<noteq> str ''Invalid response format'' \<longrightarrow>
            searchProducts rt this params =
              ([search_request this q], Inl (Error (str ''Failed to search products: '' @ message e)))) \<and>
         (fetch rt (search_request this q) = Inl e \<and>
          (instanceof_OpenFoodFactsError e \<or> message e = str ''Invalid response format'') \<longrightarrow>
            searchProducts rt this params = ([search_request this q], Inl e))"
proof (intro conjI impI)
  assume h: "fetch rt (search_request this q) = Inr resp \<and> ok resp \<and> json resp = Inr data \<and>
          (data = JNull \<or> typeof data \<noteq> ''object'')"
  then have "\<not> truthy data \<or> typeof data \<noteq> ''object''" by auto
  with h assms have "search_try rt this params =
      ([search_request this q], Inl (Error (str ''Invalid response format'')))"
    using search_try_response [of rt params q this resp data] by simp
  then show "searchProducts rt this params =
              ([search_request this q], Inl (Error (str ''Invalid response format'')))"
    by (simp add: searchProducts_def search_catch_def)
next
  assume h: "fetch rt (search_request this q) = Inl e \<and> \<not> instanceof_OpenFoodFactsError e \<and>
          message e \<noteq> str ''Invalid response format''"
  with assms have "search_try rt this params = ([search_request this q], Inl e)"
    by (simp add: search_try_def then_do_def)
  with h show "searchProducts rt this params =
              ([search_request this q], Inl (Error (str ''Failed to search products: '' @ message e)))"
    by (simp add: searchProducts_def search_catch_def del: list.map)
next
  assume h: "fetch rt (search_request this q) = Inl e \<and>
          (instanceof_OpenFoodFactsError e \<or> message e = str ''Invalid response format'')"
  with assms have "search_try rt this params = ([search_request this q], Inl e)"
    by (simp add: search_try_def then_do_def)
  with h show "searchProducts rt this params = ([search_request this q], Inl e)"
    by (auto simp: searchProducts_def search_catch_def simp del: list.map)
qed

theorem search_failures_witness:
  "searchProducts (mock_runtime (mockSuccessResponse JNull)) default_client (search_params []) =
     ([search_request default_client test_query], Inl (Error (str ''Invalid response format''))) \<and>
   searchProducts (mock_runtime (Inl (Error (str ''Network error'')))) default_client (search_params []) =
     ([search_request default_client test_query],
      Inl (Error (str ''Failed to search products: Network error'')))"
  using search_failures [OF test_queries(1), of "mock_runtime (mockSuccessResponse JNull)" default_client
          "\<lparr>ok = True, status = JNum (Finite 200), json = Inr JNull\<rparr>" JNull]
        search_failures [OF test_queries(1), of "mock_runtime (Inl (Error (str ''Network error'')))"
          default_client _ _ "Error (str ''Network error'')"]
  by (simp add: mock_fetch mockSuccessResponse_def)

text \<open>
  C7 as stated fails: a failure of \<^verbatim>\<open>fetch\<close> whose message is
  "Invalid response format" is not wrapped.
\<close>

theorem search_failures_counterexample:
  "searchProducts (mock_runtime (Inl (Error (str ''Invalid response format'')))) default_client
     (search_params []) =
     ([search_request default_client test_query], Inl (Error (str ''Invalid response format''))) \<and>
   Error (str ''Invalid response format'') \<noteq>
     Error (str ''Failed to search products: '' @ str ''Invalid response format'')"
  using test_queries(1) [of "mock_runtime (Inl (Error (str ''Invalid response format'')))"]
  by (simp add: searchProducts_def search_try_def then_do_def mock_fetch search_catch_def)

end
